theory Spec2Isabelle
  imports Main
begin

section \<open>Values\<close>

text \<open>
  A JavaScript string is modelled as a list of code units; the model covers
  the code units 0..255, the range of \<^typ>\<open>char\<close>.

  A JSON value as \<open>response.json()\<close> parses it and as \<open>res.json\<close> sends it.
  The handlers never compute with a number; integers are enough for the
  fields they write themselves (\<open>batchIndex\<close>, \<open>status\<close>).
\<close>

datatype json =
    JNull
  | JBool bool
  | JNum int
  | JStr string
  | JArr "json list"
  | JObj "(string \<times> json) list"

text \<open>What \<open>await p\<close> gives: the value, or the thrown error (its \<open>message\<close>).\<close>

datatype 'a promise = Resolves 'a | Rejects string

text \<open>
  \<open>req.query.placeIds\<close>: absent, one string, a list of strings (a repeated
  parameter), or any other object.
\<close>

datatype query_value = QAbsent | QStr string | QArr "string list" | QObj

record request =
  req_method :: string
  placeIds :: query_value

record response =
  res_headers :: "(string \<times> string) list"
  res_status :: nat
  res_body :: "json option"

text \<open>
  The response of node-fetch, as far as the handlers read it; \<open>body_text\<close> and
  \<open>body_json\<close> are what \<open>await response.text()\<close> and \<open>await response.json()\<close> give.
\<close>

record fetch_response =
  ok :: bool
  status :: nat
  statusText :: string
  body_text :: "string promise"
  body_json :: "json promise"

text \<open>One outbound call: the arguments of \<open>fetch(url, {method, headers})\<close>.\<close>

record fetch_call =
  url :: string
  fetch_method :: string
  headers :: "(string \<times> string) list"

text \<open>
  The upstream is outside the program: a transition of some world \<open>'w\<close> that
  answers each call.
\<close>

type_synonym 'w upstream = "'w \<Rightarrow> fetch_call \<Rightarrow> fetch_response promise \<times> 'w"

text \<open>An entry of the \<open>errors\<close> array.\<close>

record batch_error =
  batchIndex :: nat
  err_status :: nat
  err_statusText :: string
  details :: string

definition error_json :: "batch_error \<Rightarrow> json" where
  "error_json e = JObj [(''batchIndex'', JNum (int (batchIndex e))),
                        (''status'', JNum (int (err_status e))),
                        (''statusText'', JStr (err_statusText e)),
                        (''details'', JStr (details e))]"

section \<open>Constants\<close>

definition ROBLOX_API_BASE_URL :: string where
  "ROBLOX_API_BASE_URL = ''https://games.roblox.com/v1/games/multiget-place-details''"

definition BATCH_SIZE :: nat where
  "BATCH_SIZE = 50"

section \<open>Built-in string and array functions\<close>

text \<open>\<open>s.split(',')\<close>: the pieces between the separators; never an empty list.\<close>

fun split :: "char \<Rightarrow> string \<Rightarrow> string list" where
  "split sep [] = [[]]"
| "split sep (c # cs) =
     (if c = sep then [] # split sep cs
      else (c # hd (split sep cs)) # tl (split sep cs))"

text \<open>White space and line terminators of ECMAScript among the code units 0..255.\<close>

definition isWhiteSpace :: "char \<Rightarrow> bool" where
  "isWhiteSpace c = ((of_char c :: nat) \<in> {9, 10, 11, 12, 13, 32, 160})"

definition trim :: "string \<Rightarrow> string" where
  "trim s = rev (dropWhile isWhiteSpace (rev (dropWhile isWhiteSpace s)))"

text \<open>The value of a digit or letter as \<open>parseInt\<close> reads it.\<close>

definition digit_value :: "char \<Rightarrow> nat option" where
  "digit_value c =
     (let n = (of_char c :: nat) in
      if 48 \<le> n \<and> n \<le> 57 then Some (n - 48)
      else if 97 \<le> n \<and> n \<le> 122 then Some (n - 87)
      else if 65 \<le> n \<and> n \<le> 90 then Some (n - 55)
      else None)"

definition is_radix_digit :: "nat \<Rightarrow> char \<Rightarrow> bool" where
  "is_radix_digit R c = (case digit_value c of None \<Rightarrow> False | Some d \<Rightarrow> d < R)"

definition mathInt :: "nat \<Rightarrow> string \<Rightarrow> int" where
  "mathInt R Z = foldl (\<lambda>acc c. acc * int R + int (the (digit_value c))) 0 Z"

text \<open>
  \<open>parseInt(string)\<close> with no radix, by the steps of ECMAScript: skip leading
  white space, read one sign, read the prefix \<open>0x\<close>/\<open>0X\<close> (radix 16, else 10),
  take the longest prefix of digits of the radix. No digit: \<open>NaN\<close>, here
  \<open>None\<close>. Otherwise the integer read; its rounding to a Number is left out,
  the handler only asks \<open>isNaN\<close>.
\<close>

definition parseInt :: "string \<Rightarrow> int option" where
  "parseInt inputString =
     (let S = dropWhile isWhiteSpace inputString;
          sign = (if S \<noteq> [] \<and> hd S = CHR ''-'' then - 1 else 1 :: int);
          S = (if S \<noteq> [] \<and> (hd S = CHR ''+'' \<or> hd S = CHR ''-'') then tl S else S);
          hex = (2 \<le> length S \<and> (take 2 S = ''0x'' \<or> take 2 S = ''0X''));
          R = (if hex then 16 else 10);
          S = (if hex then drop 2 S else S);
          Z = takeWhile (is_radix_digit R) S
      in if Z = [] then None else Some (sign * mathInt R Z))"

definition isNaN :: "int option \<Rightarrow> bool" where
  "isNaN x = (x = None)"

text \<open>\<open>xs.join(sep)\<close>.\<close>

fun join :: "string \<Rightarrow> string list \<Rightarrow> string" where
  "join sep [] = []"
| "join sep [x] = x"
| "join sep (x # y # ys) = x @ sep @ join sep (y # ys)"

definition hex_digit :: "nat \<Rightarrow> char" where
  "hex_digit n = ''0123456789ABCDEF'' ! (n mod 16)"

definition percent :: "nat \<Rightarrow> string" where
  "percent b = [CHR ''%'', hex_digit (b div 16), hex_digit b]"

text \<open>
  \<open>encodeURIComponent\<close>: letters, digits and \<open>- _ . ! ~ * ' ( )\<close> (the codes
  45, 95, 46, 33, 126, 42, 39, 40, 41) stay, every
  other code unit is written as the percent-escaped bytes of its UTF-8 form
  (one byte below 128, two bytes from 128 to 255).
\<close>

definition uri_unreserved :: "char \<Rightarrow> bool" where
  "uri_unreserved c =
     (let n = (of_char c :: nat) in
      (48 \<le> n \<and> n \<le> 57) \<or> (65 \<le> n \<and> n \<le> 90) \<or> (97 \<le> n \<and> n \<le> 122)
      \<or> n \<in> {45, 95, 46, 33, 126, 42, 39, 40, 41})"

definition encode_unit :: "char \<Rightarrow> string" where
  "encode_unit c =
     (let n = (of_char c :: nat) in
      if uri_unreserved c then [c]
      else if n < 128 then percent n
      else percent (192 + n div 64) @ percent (128 + n mod 64))"

definition encodeURIComponent :: "string \<Rightarrow> string" where
  "encodeURIComponent s = concat (map encode_unit s)"

text \<open>\<open>xs.slice(start, end)\<close> for indices that are not negative.\<close>

definition slice :: "'a list \<Rightarrow> nat \<Rightarrow> nat \<Rightarrow> 'a list" where
  "slice xs start end' = take (end' - start) (drop start xs)"

text \<open>
  \<open>A.concat(item)\<close>: the elements of an array argument are appended one by
  one, any other argument is appended as one element.
\<close>

fun array_concat :: "json list \<Rightarrow> json \<Rightarrow> json list" where
  "array_concat A (JArr es) = A @ es"
| "array_concat A item = A @ [item]"

fun Array_isArray :: "json \<Rightarrow> bool" where
  "Array_isArray (JArr es) = True"
| "Array_isArray item = False"

definition push :: "'a list \<Rightarrow> 'a \<Rightarrow> 'a list" where
  "push A item = A @ [item]"

section \<open>The batch loop\<close>

text \<open>
  \<open>for (let i = 0; i < ids.length; i += BATCH_SIZE) { const batch =
  ids.slice(i, i + BATCH_SIZE); body }\<close>, the loop of all three batching
  handlers, from the index \<open>i\<close> on.
\<close>

function for_batches :: "(nat \<Rightarrow> 'a list \<Rightarrow> 's \<Rightarrow> 's) \<Rightarrow> 'a list \<Rightarrow> nat \<Rightarrow> 's \<Rightarrow> 's" where
  "for_batches body ids i s =
     (if i < length ids
      then for_batches body ids (i + BATCH_SIZE) (body i (slice ids i (i + BATCH_SIZE)) s)
      else s)"
  by pat_completeness auto
termination
  by (relation "measure (\<lambda>(body, ids, i, s). length ids - i)") (auto simp: BATCH_SIZE_def)

declare for_batches.simps [simp del]

text \<open>The partition the loop goes through: each start offset with its batch.\<close>

definition batches_from :: "'a list \<Rightarrow> nat \<Rightarrow> (nat \<times> 'a list) list" where
  "batches_from ids i = for_batches (\<lambda>j batch acc. acc @ [(j, batch)]) ids i []"

definition batches :: "'a list \<Rightarrow> (nat \<times> 'a list) list" where
  "batches ids = batches_from ids 0"

section \<open>Dispatch of one batch\<close>

text \<open>
  The state of the loop: the two arrays of the handler, the world of the
  upstream, and the log of the calls made so far (\<open>calls\<close> is not a variable
  of the program; it records each \<open>fetch\<close>).
\<close>

record 'w dispatch_state =
  allResults :: "json list"
  errors :: "batch_error list"
  world :: 'w
  calls :: "fetch_call list"

text \<open>A template literal writes an undefined value as \<open>undefined\<close>.\<close>

definition template :: "string option \<Rightarrow> string" where
  "template v = (case v of None \<Rightarrow> ''undefined'' | Some s \<Rightarrow> s)"

definition batch_url :: "string list \<Rightarrow> string" where
  "batch_url batch =
     ROBLOX_API_BASE_URL @ ''?'' @
     join ''&'' (map (\<lambda>id. ''placeIds='' @ encodeURIComponent id) batch)"

text \<open>
  The call of the filtering handler (part_000) for a batch, and the call of
  api/get-place-details.js and server.js, which send no \<open>User-Agent\<close>. The
  argument is \<open>process.env.ROBLOSECURITY_COOKIE\<close>.
\<close>

definition part_000_call :: "string option \<Rightarrow> string list \<Rightarrow> fetch_call" where
  "part_000_call cookie batch =
     \<lparr>url = batch_url batch, fetch_method = ''GET'',
      headers = [(''Cookie'', ''.ROBLOSECURITY='' @ template cookie),
                 (''Accept'', ''application/json''),
                 (''User-Agent'', ''Roblox/WinInet'')]\<rparr>"

definition plain_call :: "string option \<Rightarrow> string list \<Rightarrow> fetch_call" where
  "plain_call cookie batch =
     \<lparr>url = batch_url batch, fetch_method = ''GET'',
      headers = [(''Cookie'', ''.ROBLOSECURITY='' @ template cookie),
                 (''Accept'', ''application/json'')]\<rparr>"

text \<open>The entry the \<open>catch\<close> block pushes.\<close>

definition caught :: "nat \<Rightarrow> string \<Rightarrow> batch_error" where
  "caught i message =
     \<lparr>batchIndex = i, err_status = 500, err_statusText = ''Internal Server Error'',
      details = message\<rparr>"

text \<open>
  The \<open>try\<close> block from the answer of \<open>fetch\<close> on, with its \<open>catch\<close>: what one
  batch adds to \<open>allResults\<close> and \<open>errors\<close>. \<open>accumulate\<close> is the statement that
  adds the parsed body, the one place where the handlers differ here.
\<close>

definition settle ::
  "(json list \<Rightarrow> json \<Rightarrow> json list) \<Rightarrow> nat \<Rightarrow> fetch_response promise \<Rightarrow>
   json list \<times> batch_error list \<Rightarrow> json list \<times> batch_error list" where
  "settle accumulate i answer acc =
     (case acc of (results, errs) \<Rightarrow>
      (case answer of
         Rejects message \<Rightarrow> (results, push errs (caught i message))
       | Resolves robloxResponse \<Rightarrow>
           if \<not> ok robloxResponse then
             (case body_text robloxResponse of
                Rejects message \<Rightarrow> (results, push errs (caught i message))
              | Resolves errorText \<Rightarrow>
                  (results, push errs
                     \<lparr>batchIndex = i, err_status = status robloxResponse,
                      err_statusText = statusText robloxResponse, details = errorText\<rparr>))
           else
             (case body_json robloxResponse of
                Rejects message \<Rightarrow> (results, push errs (caught i message))
              | Resolves data \<Rightarrow> (accumulate results data, errs))))"

text \<open>part_000, lines 70 to 74.\<close>

definition part_000_accumulate :: "json list \<Rightarrow> json \<Rightarrow> json list" where
  "part_000_accumulate results data =
     (if Array_isArray data then array_concat results data else push results data)"

text \<open>The body of the loop: build the call, \<open>await fetch\<close>, settle the answer.\<close>

definition try_batch ::
  "(string list \<Rightarrow> fetch_call) \<Rightarrow> (json list \<Rightarrow> json \<Rightarrow> json list) \<Rightarrow> 'w upstream \<Rightarrow>
   nat \<Rightarrow> string list \<Rightarrow> 'w dispatch_state \<Rightarrow> 'w dispatch_state" where
  "try_batch mk_call accumulate fetch i batch st =
     (case fetch (world st) (mk_call batch) of (answer, w) \<Rightarrow>
      (case settle accumulate i answer (allResults st, errors st) of (results, errs) \<Rightarrow>
         \<lparr>allResults = results, errors = errs, world = w,
          calls = calls st @ [mk_call batch]\<rparr>))"

definition dispatch ::
  "(string list \<Rightarrow> fetch_call) \<Rightarrow> (json list \<Rightarrow> json \<Rightarrow> json list) \<Rightarrow> 'w upstream \<Rightarrow>
   'w \<Rightarrow> string list \<Rightarrow> 'w dispatch_state" where
  "dispatch mk_call accumulate fetch w ids =
     for_batches (try_batch mk_call accumulate fetch) ids 0
       \<lparr>allResults = [], errors = [], world = w, calls = []\<rparr>"

section \<open>The handlers\<close>

text \<open>\<open>!placeIds\<close>: an absent value and the empty string are falsy, every array and object is truthy.\<close>

fun falsy :: "query_value \<Rightarrow> bool" where
  "falsy QAbsent = True"
| "falsy (QStr s) = (s = [])"
| "falsy (QArr xs) = False"
| "falsy QObj = False"

text \<open>
  \<open>if (typeof placeIds === 'string') placeIds = placeIds.split(',').map(id => id.trim());
  else if (!Array.isArray(placeIds)) return ...\<close>: the array the handler goes on
  with, or \<open>None\<close> where it returns the format error.
\<close>

fun placeIds_array :: "query_value \<Rightarrow> string list option" where
  "placeIds_array (QStr s) = Some (map trim (split CHR '','' s))"
| "placeIds_array (QArr xs) = Some xs"
| "placeIds_array other = None"

text \<open>What a run of a handler leaves: the response, the calls made, the world.\<close>

record 'w run =
  sent :: response
  upstream_calls :: "fetch_call list"
  final_world :: 'w

definition reply :: "'w \<Rightarrow> response \<Rightarrow> nat \<Rightarrow> json option \<Rightarrow> 'w run" where
  "reply w res code payload =
     \<lparr>sent = res\<lparr>res_status := code, res_body := payload\<rparr>, upstream_calls = [], final_world = w\<rparr>"

definition error_body :: "string \<Rightarrow> json option" where
  "error_body message = Some (JObj [(''error'', JStr message)])"

text \<open>
  The response object once the handler has set its CORS headers (part_000
  lines 9 to 11; api/get-place-details.js lines 10 and 11, and the
  middleware of server.js): nothing sent yet, the status is the default 200.
\<close>

definition part_000_headers :: response where
  "part_000_headers =
     \<lparr>res_headers =
        [(''Access-Control-Allow-Origin'', ''*''),
         (''Access-Control-Allow-Methods'', ''GET, OPTIONS''),
         (''Access-Control-Allow-Headers'', ''Origin, X-Requested-With, Content-Type, Accept'')],
      res_status = 200, res_body = None\<rparr>"

definition plain_headers :: response where
  "plain_headers =
     \<lparr>res_headers =
        [(''Access-Control-Allow-Origin'', ''*''),
         (''Access-Control-Allow-Headers'', ''Origin, X-Requested-With, Content-Type, Accept'')],
      res_status = 200, res_body = None\<rparr>"

subsection \<open>The filtering handler (src/unnamed/part_000)\<close>

definition part_000_respond :: "response \<Rightarrow> 'w dispatch_state \<Rightarrow> 'w run" where
  "part_000_respond res st =
     \<lparr>sent =
        (if length (errors st) > 0 \<and> length (allResults st) = 0 then
           res\<lparr>res_status := 500,
               res_body := Some (JObj [(''error'', JStr ''All requests failed''),
                                       (''errors'', JArr (map error_json (errors st)))])\<rparr>
         else if length (errors st) > 0 then
           res\<lparr>res_status := 200,
               res_body := Some (JObj [(''data'', JArr (allResults st)),
                                       (''errors'', JArr (map error_json (errors st))),
                                       (''message'', JStr ''Some batches failed.'')])\<rparr>
         else
           res\<lparr>res_status := 200,
               res_body := Some (JObj [(''data'', JArr (allResults st))])\<rparr>),
      upstream_calls = calls st, final_world = world st\<rparr>"

text \<open>Lines 34 to 93: the filter, the loop and the response.\<close>

definition validPlaceIds :: "string list \<Rightarrow> string list" where
  "validPlaceIds ids = filter (\<lambda>id. \<not> isNaN (parseInt id)) ids"

definition part_000_batches ::
  "string option \<Rightarrow> 'w upstream \<Rightarrow> 'w \<Rightarrow> response \<Rightarrow> string list \<Rightarrow> 'w run" where
  "part_000_batches cookie fetch w res ids =
     (if length (validPlaceIds ids) = 0 then
        reply w res 400 (error_body ''No valid place IDs provided.'')
      else
        part_000_respond res
          (dispatch (part_000_call cookie) part_000_accumulate fetch w (validPlaceIds ids)))"

definition part_000 :: "string option \<Rightarrow> 'w upstream \<Rightarrow> 'w \<Rightarrow> request \<Rightarrow> 'w run" where
  "part_000 cookie fetch w req =
     (let res = part_000_headers
      in if req_method req = ''OPTIONS'' then reply w res 200 None
         else if req_method req \<noteq> ''GET'' then reply w res 405 (error_body ''Method not allowed'')
         else if falsy (placeIds req) then reply w res 400 (error_body ''Missing placeIds parameter.'')
         else (case placeIds_array (placeIds req) of
                 None \<Rightarrow> reply w res 400 (error_body ''Invalid placeIds format.'')
               | Some ids \<Rightarrow> part_000_batches cookie fetch w res ids))"

subsection \<open>api/get-place-details.js and server.js\<close>

text \<open>
  The two handlers end alike but for the text of the message:
  \<open>res.status(200).json({data, errors, message})\<close> when a batch failed, else
  \<open>res.json(allResults)\<close>, the bare array with the default status 200.
\<close>

definition plain_respond :: "string \<Rightarrow> response \<Rightarrow> 'w dispatch_state \<Rightarrow> 'w run" where
  "plain_respond message res st =
     \<lparr>sent =
        (if length (errors st) > 0 then
           res\<lparr>res_status := 200,
               res_body := Some (JObj [(''data'', JArr (allResults st)),
                                       (''errors'', JArr (map error_json (errors st))),
                                       (''message'', JStr message)])\<rparr>
         else res\<lparr>res_body := Some (JArr (allResults st))\<rparr>),
      upstream_calls = calls st, final_world = world st\<rparr>"

definition get_place_details ::
  "string option \<Rightarrow> 'w upstream \<Rightarrow> 'w \<Rightarrow> request \<Rightarrow> 'w run" where
  "get_place_details cookie fetch w req =
     (let res = plain_headers
      in if req_method req = ''OPTIONS'' then reply w res 200 None
         else if falsy (placeIds req) then reply w res 400 (error_body ''Missing placeIds parameter.'')
         else (case placeIds_array (placeIds req) of
                 None \<Rightarrow> reply w res 400 (error_body ''Invalid placeIds format.'')
               | Some ids \<Rightarrow>
                   plain_respond ''Some batches failed.'' res
                     (dispatch (plain_call cookie) array_concat fetch w ids)))"

text \<open>
  server.js: the route \<open>app.get('/get-place-details', ...)\<close>, reached by GET requests
  after the middleware has set the two CORS headers.
\<close>

definition server_get_place_details ::
  "string option \<Rightarrow> 'w upstream \<Rightarrow> 'w \<Rightarrow> query_value \<Rightarrow> 'w run" where
  "server_get_place_details cookie fetch w q =
     (let res = plain_headers
      in if falsy q then reply w res 400 (error_body ''Missing placeIds parameter.'')
         else (case placeIds_array q of
                 None \<Rightarrow>
                   reply w res 400
                     (error_body ''Invalid placeIds format. Must be a comma-separated string or an array.'')
               | Some ids \<Rightarrow>
                   plain_respond ''Some batches failed to fetch data from Roblox API.'' res
                     (dispatch (plain_call cookie) array_concat fetch w ids)))"

section \<open>The terms of the specification\<close>

text \<open>
  The answers the upstream gives to a sequence of calls made one after the
  other from the world \<open>w\<close>.
\<close>

fun replies :: "'w upstream \<Rightarrow> 'w \<Rightarrow> fetch_call list \<Rightarrow> fetch_response promise list" where
  "replies fetch w [] = []"
| "replies fetch w (c # cs) = (case fetch w c of (answer, w') \<Rightarrow> answer # replies fetch w' cs)"

fun world_after :: "'w upstream \<Rightarrow> 'w \<Rightarrow> fetch_call list \<Rightarrow> 'w" where
  "world_after fetch w [] = w"
| "world_after fetch w (c # cs) = (case fetch w c of (answer, w') \<Rightarrow> world_after fetch w' cs)"

text \<open>The calls of a partition, one for each batch, in the order of the batches.\<close>

definition batch_calls :: "(string list \<Rightarrow> fetch_call) \<Rightarrow> string list \<Rightarrow> fetch_call list" where
  "batch_calls mk_call ids = map (\<lambda>(i, batch). mk_call batch) (batches ids)"

text \<open>
  BatchResult, by the words of the specification (Upstream Dispatcher): a
  2xx answer whose body parses gives \<open>Success\<close> with the elements of a sequence
  or with the one record; a non-2xx answer gives \<open>Failure\<close> with the status, the
  status text and the raw body; a transport failure (the call, the reading
  of the body or its parsing throws) gives \<open>Failure\<close> with status 500,
  "Internal Server Error" and the message.
\<close>

datatype batch_result = Success "json list" | Failure batch_error

definition spec_batch_result :: "nat \<Rightarrow> fetch_response promise \<Rightarrow> batch_result" where
  "spec_batch_result offset answer =
     (case answer of
        Rejects message \<Rightarrow> Failure (caught offset message)
      | Resolves r \<Rightarrow>
          if ok r then
            (case body_json r of
               Rejects message \<Rightarrow> Failure (caught offset message)
             | Resolves (JArr items) \<Rightarrow> Success items
             | Resolves record \<Rightarrow> Success [record])
          else
            (case body_text r of
               Rejects message \<Rightarrow> Failure (caught offset message)
             | Resolves raw \<Rightarrow>
                 Failure \<lparr>batchIndex = offset, err_status = status r,
                          err_statusText = statusText r, details = raw\<rparr>))"

text \<open>The BatchResult of every batch of a run, in partition order.\<close>

definition batch_results ::
  "(string list \<Rightarrow> fetch_call) \<Rightarrow> 'w upstream \<Rightarrow> 'w \<Rightarrow> string list \<Rightarrow> batch_result list" where
  "batch_results mk_call fetch w ids =
     map (\<lambda>((i, batch), answer). spec_batch_result i answer)
       (zip (batches ids) (replies fetch w (batch_calls mk_call ids)))"

text \<open>Result Aggregator: the items of every Success, and every Failure, in order.\<close>

fun success_items :: "batch_result list \<Rightarrow> json list" where
  "success_items [] = []"
| "success_items (Success items # rs) = items @ success_items rs"
| "success_items (Failure e # rs) = success_items rs"

fun failures :: "batch_result list \<Rightarrow> batch_error list" where
  "failures [] = []"
| "failures (Success items # rs) = failures rs"
| "failures (Failure e # rs) = e # failures rs"

fun is_Success :: "batch_result \<Rightarrow> bool" where
  "is_Success (Success items) = True"
| "is_Success (Failure e) = False"

text \<open>
  Input Normalizer, by the words of the specification: an integer in base 10
  is an optional leading \<open>+\<close> or \<open>-\<close> followed by digits, with no other content.
\<close>

definition is_digit :: "char \<Rightarrow> bool" where
  "is_digit c = (48 \<le> (of_char c :: nat) \<and> (of_char c :: nat) \<le> 57)"

definition spec_decimal_integer :: "string \<Rightarrow> bool" where
  "spec_decimal_integer s =
     (let digits = (if s \<noteq> [] \<and> (hd s = CHR ''+'' \<or> hd s = CHR ''-'') then tl s else s)
      in digits \<noteq> [] \<and> list_all is_digit digits)"

section \<open>Sample upstreams\<close>

text \<open>
  Upstreams for the examples; the world counts the calls answered. An
  answer 200 with a given parsed body (its text, which no handler reads, is
  left empty), and an answer 404 "not found".
\<close>

definition answer_200 :: "json \<Rightarrow> fetch_response promise" where
  "answer_200 data =
     Resolves \<lparr>ok = True, status = 200, statusText = ''OK'',
               body_text = Resolves [], body_json = Resolves data\<rparr>"

definition answer_404 :: "fetch_response promise" where
  "answer_404 =
     Resolves \<lparr>ok = False, status = 404, statusText = ''Not Found'',
               body_text = Resolves ''not found'',
               body_json = Rejects ''Unexpected token o in JSON at position 1''\<rparr>"

text \<open>The first call is answered with the given body, every later call with 404.\<close>

definition first_ok_then_404 :: "json \<Rightarrow> nat upstream" where
  "first_ok_then_404 data w c = (if w = 0 then answer_200 data else answer_404, Suc w)"

definition always_404 :: "nat upstream" where
  "always_404 w c = (answer_404, Suc w)"

text \<open>The same answers from a world that counts down, for comparing two upstreams.\<close>

definition always_404_down :: "int upstream" where
  "always_404_down w c = (answer_404, w - 1)"

section \<open>The partition of the batch loop\<close>

lemma for_batches_step:
  "i < length ids \<Longrightarrow>
   for_batches body ids i s =
   for_batches body ids (i + BATCH_SIZE) (body i (slice ids i (i + BATCH_SIZE)) s)"
  by (subst for_batches.simps) simp

lemma for_batches_stop: "\<not> i < length ids \<Longrightarrow> for_batches body ids i s = s"
  by (subst for_batches.simps) simp

lemma record_batches_acc:
  "for_batches (\<lambda>j batch acc. acc @ [(j, batch)]) ids i acc = acc @ batches_from ids i"
proof (induction "length ids - i" arbitrary: i acc rule: less_induct)
  case less
  let ?rec = "\<lambda>j batch acc. acc @ [(j :: nat, batch :: 'a list)]"
  show ?case
  proof (cases "i < length ids")
    case True
    then have smaller: "length ids - (i + BATCH_SIZE) < length ids - i"
      by (simp add: BATCH_SIZE_def)
    let ?b = "(i, slice ids i (i + BATCH_SIZE))"
    have here: "for_batches ?rec ids i acc = (acc @ [?b]) @ batches_from ids (i + BATCH_SIZE)"
      for acc
      using for_batches_step [OF True, of ?rec acc] less [OF smaller, of "acc @ [?b]"]
      by (simp only:)
    have "batches_from ids i = ([] @ [?b]) @ batches_from ids (i + BATCH_SIZE)"
      unfolding batches_from_def [of ids i] by (rule here)
    with here [of acc] show ?thesis by simp
  next
    case False
    then show ?thesis by (simp add: batches_from_def for_batches_stop)
  qed
qed


lemma batches_from_step:
  "i < length ids \<Longrightarrow>
   batches_from ids i = (i, slice ids i (i + BATCH_SIZE)) # batches_from ids (i + BATCH_SIZE)"
  using record_batches_acc [of ids "i + BATCH_SIZE" "[(i, slice ids i (i + BATCH_SIZE))]"]
  by (simp add: batches_from_def for_batches_step)

lemma batches_from_stop: "\<not> i < length ids \<Longrightarrow> batches_from ids i = []"
  by (simp add: batches_from_def for_batches_stop)

lemma for_batches_foldl:
  "for_batches body ids i s = foldl (\<lambda>s (j, batch). body j batch s) s (batches_from ids i)"
proof (induction "length ids - i" arbitrary: i s rule: less_induct)
  case less
  show ?case
  proof (cases "i < length ids")
    case True
    then have smaller: "length ids - (i + BATCH_SIZE) < length ids - i"
      by (simp add: BATCH_SIZE_def)
    have "for_batches body ids i s =
          foldl (\<lambda>s (j, batch). body j batch s) (body i (slice ids i (i + BATCH_SIZE)) s)
            (batches_from ids (i + BATCH_SIZE))"
      using for_batches_step [OF True, of body s] less [OF smaller] by (simp only:)
    then show ?thesis
      by (simp only: batches_from_step [OF True] foldl_Cons prod.case)
  next
    case False
    show ?thesis by (simp only: for_batches_stop [OF False] batches_from_stop [OF False] foldl_Nil)
  qed
qed

lemma concat_batches_from: "concat (map snd (batches_from ids i)) = drop i ids"
proof (induction "length ids - i" arbitrary: i rule: less_induct)
  case less
  show ?case
  proof (cases "i < length ids")
    case True
    then have smaller: "length ids - (i + BATCH_SIZE) < length ids - i"
      by (simp add: BATCH_SIZE_def)
    have "take BATCH_SIZE (drop i ids) @ drop (i + BATCH_SIZE) ids = drop i ids"
      by (metis add.commute append_take_drop_id drop_drop)
    then show ?thesis
      by (simp add: batches_from_step [OF True] less [OF smaller] slice_def)
  next
    case False
    then show ?thesis by (simp add: batches_from_stop)
  qed
qed

lemma ceil_step:
  fixes m :: nat
  assumes "0 < m"
  shows "Suc ((m - 50 + 49) div 50) = (m + 49) div 50"
proof (cases "50 \<le> m")
  case True
  then have "m + 49 = (m - 50 + 49) + 50" by simp
  then have "(m + 49) div 50 = ((m - 50 + 49) + 50) div 50" by (simp only:)
  then show ?thesis by simp
next
  case False
  with assms have "(m + 49) div 50 = 1" by (intro div_nat_eqI) simp_all
  with False show ?thesis by simp
qed

lemma length_batches_from:
  "length (batches_from ids i) = (length ids - i + (BATCH_SIZE - 1)) div BATCH_SIZE"
proof (induction "length ids - i" arbitrary: i rule: less_induct)
  case less
  show ?case
  proof (cases "i < length ids")
    case True
    then have smaller: "length ids - (i + BATCH_SIZE) < length ids - i"
      by (simp add: BATCH_SIZE_def)
    have "Suc ((length ids - (i + 50) + 49) div 50) = (length ids - i + 49) div 50"
      using True ceil_step [of "length ids - i"] by simp
    then show ?thesis
      using less [OF smaller] by (simp add: batches_from_step [OF True] BATCH_SIZE_def)
  next
    case False
    then show ?thesis by (simp add: batches_from_stop BATCH_SIZE_def)
  qed
qed

lemma nth_batches_from:
  "k < length (batches_from ids i) \<Longrightarrow>
   batches_from ids i ! k =
   (i + k * BATCH_SIZE, slice ids (i + k * BATCH_SIZE) (i + k * BATCH_SIZE + BATCH_SIZE))"
proof (induction k arbitrary: i)
  case 0
  then have "i < length ids" using batches_from_stop [of i ids] by (cases "i < length ids") auto
  then show ?case by (simp add: batches_from_step)
next
  case (Suc k)
  then have i: "i < length ids" using batches_from_stop [of i ids] by (cases "i < length ids") auto
  with Suc.prems have "k < length (batches_from ids (i + BATCH_SIZE))"
    by (simp add: batches_from_step)
  from Suc.IH [OF this] show ?case
    by (simp add: batches_from_step [OF i] add.assoc add.commute add.left_commute)
qed

lemma batches_nth:
  "k < length (batches ids) \<Longrightarrow>
   batches ids ! k = (k * BATCH_SIZE, slice ids (k * BATCH_SIZE) (k * BATCH_SIZE + BATCH_SIZE))"
  using nth_batches_from [of k ids 0] by (simp add: batches_def)

lemma length_batches: "length (batches ids) = (length ids + 49) div 50"
  using length_batches_from [of ids 0] by (simp add: batches_def BATCH_SIZE_def)

lemma ceil_div_50:
  fixes n :: nat
  shows "(n + 49) div 50 = n div 50 + (if n mod 50 = 0 then 0 else 1)"
proof -
  define q r where "q = n div 50" and "r = n mod 50"
  have n: "n = 50 * q + r" and r: "r < 50" by (simp_all add: q_def r_def)
  show ?thesis
  proof (cases "r = 0")
    case True
    have "(n + 49) div 50 = q" using n True by (intro div_nat_eqI) simp_all
    then show ?thesis using True by (simp add: q_def r_def)
  next
    case False
    have "(n + 49) div 50 = Suc q" using n r False by (intro div_nat_eqI) simp_all
    then show ?thesis using False by (simp add: q_def r_def)
  qed
qed

lemma length_batch_nth:
  assumes "k < length (batches ids)"
  shows "length (snd (batches ids ! k)) =
         (if Suc k < length (batches ids) then BATCH_SIZE
          else if length ids mod BATCH_SIZE = 0 then BATCH_SIZE
          else length ids mod BATCH_SIZE)"
proof -
  define n q r where "n = length ids" and "q = n div 50" and "r = n mod 50"
  have n: "n = 50 * q + r" and r: "r < 50" by (simp_all add: q_def r_def)
  have nb: "length (batches ids) = q + (if r = 0 then 0 else 1)"
    unfolding length_batches ceil_div_50 n_def q_def r_def ..
  have len: "length (snd (batches ids ! k)) = min 50 (n - 50 * k)"
    by (simp add: batches_nth [OF assms] slice_def BATCH_SIZE_def min.commute n_def mult.commute)
  have goal: "min 50 (n - 50 * k) =
         (if Suc k < q + (if r = 0 then 0 else 1) then 50 else if r = 0 then 50 else r)"
  proof (cases "r = 0")
    case True
    with assms nb have "k < q" by simp
    then have "Suc k < q \<or> Suc k = q" by arith
    then show ?thesis using True n by (elim disjE) simp_all
  next
    case False
    with assms nb have "k < q \<or> k = q" by (simp add: less_Suc_eq)
    then show ?thesis using False n r by (elim disjE) simp_all
  qed
  show ?thesis
    unfolding len goal nb BATCH_SIZE_def by (simp add: r_def n_def)
qed

text \<open>
  C3: with \<open>BATCH_SIZE = 50\<close>, the partition the loop goes through has
  \<open>ceil (N / 50)\<close> batches (the least number whose fifty-fold reaches \<open>N\<close>),
  batch \<open>k\<close> starts at offset \<open>50 * k\<close> (the first at 0) and holds the next 50
  identifiers in their order, every batch has length 50 but the last, which
  has length \<open>N mod 50\<close>, or 50 when 50 divides \<open>N\<close>, and the batches put
  together give the identifier sequence.
\<close>

theorem batch_partition:
  "BATCH_SIZE = 50 \<and>
   length (batches ids) = (length ids + 49) div 50 \<and>
   length ids \<le> 50 * length (batches ids) \<and>
   50 * length (batches ids) < length ids + 50 \<and>
   concat (map snd (batches ids)) = ids \<and>
   (\<forall>k < length (batches ids).
      batches ids ! k = (50 * k, take 50 (drop (50 * k) ids)) \<and>
      length (snd (batches ids ! k)) =
        (if Suc k < length (batches ids) then 50
         else if length ids mod 50 = 0 then 50 else length ids mod 50))"
proof -
  have count: "length (batches ids) = (length ids + 49) div 50"
    by (rule length_batches)
  define q r where "q = length ids div 50" and "r = length ids mod 50"
  have n: "length ids = 50 * q + r" and r: "r < 50" by (simp_all add: q_def r_def)
  have nb: "length (batches ids) = q + (if r = 0 then 0 else 1)"
    unfolding count ceil_div_50 q_def r_def ..
  have upper: "length ids \<le> 50 * length (batches ids)"
    unfolding nb n using r by simp
  have lower: "50 * length (batches ids) < length ids + 50"
    unfolding nb n using r by simp
  have cover: "concat (map snd (batches ids)) = ids"
    by (simp add: batches_def concat_batches_from)
  have each: "batches ids ! k = (50 * k, take 50 (drop (50 * k) ids)) \<and>
      length (snd (batches ids ! k)) =
        (if Suc k < length (batches ids) then 50
         else if length ids mod 50 = 0 then 50 else length ids mod 50)"
    if "k < length (batches ids)" for k
    using batches_nth [OF that] length_batch_nth [OF that]
    by (simp add: BATCH_SIZE_def slice_def mult.commute)
  show ?thesis
    using BATCH_SIZE_def count upper lower cover each by blast
qed

theorem batch_partition_witness:
  "length (batches (replicate 75 ''7'')) = 2 \<and>
   (1::nat) < length (batches (replicate 75 ''7'')) \<and>
   batches (replicate 75 ''7'') ! 0 = (0, replicate 50 ''7'') \<and>
   batches (replicate 75 ''7'') ! 1 = (50, replicate 25 ''7'') \<and>
   length (snd (batches (replicate 75 ''7'') ! 1)) = 25"
proof -
  let ?ids = "replicate 75 ''7''"
  note p = batch_partition [of ?ids]
  from p have n: "length (batches ?ids) = 2" by simp
  from p have each: "\<forall>k < length (batches ?ids).
      batches ?ids ! k = (50 * k, take 50 (drop (50 * k) ?ids)) \<and>
      length (snd (batches ?ids ! k)) =
        (if Suc k < length (batches ?ids) then 50
         else if length ?ids mod 50 = 0 then 50 else length ?ids mod 50)"
    by (elim conjE)
  from each n have "batches ?ids ! 0 = (0, replicate 50 ''7'')"
    by simp
  moreover from each [rule_format, of 1] n
  have "batches ?ids ! 1 = (50, replicate 25 ''7'') \<and> length (snd (batches ?ids ! 1)) = 25"
    by simp
  ultimately show ?thesis using n by simp
qed

section \<open>The loop in the terms of the specification\<close>

lemma part_000_accumulate_concat: "part_000_accumulate results data = array_concat results data"
  by (cases data) (simp_all add: part_000_accumulate_def push_def)

lemma part_000_accumulate_eq: "part_000_accumulate = array_concat"
  by (intro ext) (rule part_000_accumulate_concat)

lemma array_concat_items:
  "array_concat results data = results @ (case data of JArr items \<Rightarrow> items | _ \<Rightarrow> [data])"
  by (cases data) simp_all

lemma settle_spec:
  "settle array_concat i answer (results, errs) =
   (case spec_batch_result i answer of
      Success items \<Rightarrow> (results @ items, errs)
    | Failure e \<Rightarrow> (results, errs @ [e]))"
proof (cases answer)
  case (Rejects message)
  then show ?thesis by (simp add: settle_def spec_batch_result_def push_def)
next
  case (Resolves r)
  show ?thesis
  proof (cases "ok r")
    case True
    then show ?thesis
      using Resolves
      by (cases "body_json r")
         (simp_all add: settle_def spec_batch_result_def push_def array_concat_items
            split: json.splits)
  next
    case False
    then show ?thesis
      using Resolves
      by (cases "body_text r") (simp_all add: settle_def spec_batch_result_def push_def)
  qed
qed

lemma try_batch_spec:
  "try_batch mk_call array_concat fetch i batch st =
   (case spec_batch_result i (fst (fetch (world st) (mk_call batch))) of
      Success items \<Rightarrow>
        \<lparr>allResults = allResults st @ items, errors = errors st,
         world = snd (fetch (world st) (mk_call batch)), calls = calls st @ [mk_call batch]\<rparr>
    | Failure e \<Rightarrow>
        \<lparr>allResults = allResults st, errors = errors st @ [e],
         world = snd (fetch (world st) (mk_call batch)), calls = calls st @ [mk_call batch]\<rparr>)"
  by (cases "fetch (world st) (mk_call batch)")
     (simp add: try_batch_def settle_spec split: batch_result.splits)

lemma foldl_try_batch:
  "foldl (\<lambda>s (j, batch). try_batch mk_call array_concat fetch j batch s) st bs =
   \<lparr>allResults = allResults st @
      success_items (map (\<lambda>((i, batch), answer). spec_batch_result i answer)
        (zip bs (replies fetch (world st) (map (\<lambda>(i, batch). mk_call batch) bs)))),
    errors = errors st @
      failures (map (\<lambda>((i, batch), answer). spec_batch_result i answer)
        (zip bs (replies fetch (world st) (map (\<lambda>(i, batch). mk_call batch) bs)))),
    world = world_after fetch (world st) (map (\<lambda>(i, batch). mk_call batch) bs),
    calls = calls st @ map (\<lambda>(i, batch). mk_call batch) bs\<rparr>"
proof (induction bs arbitrary: st)
  case Nil
  show ?case by simp
next
  case (Cons b bs)
  obtain i batch where b: "b = (i, batch)" by (cases b)
  obtain answer w' where f: "fetch (world st) (mk_call batch) = (answer, w')"
    by (cases "fetch (world st) (mk_call batch)")
  let ?F = "\<lambda>s (j, batch). try_batch mk_call array_concat fetch j batch s"
  have "foldl ?F st (b # bs) = foldl ?F (try_batch mk_call array_concat fetch i batch st) bs"
    by (simp add: b)
  then have unfolded: "foldl ?F st (b # bs) = foldl ?F (try_batch mk_call array_concat fetch i batch st) bs" .
  show ?case
    unfolding unfolded Cons.IH
    by (cases "spec_batch_result i answer") (simp_all add: b f try_batch_spec)
qed

lemma dispatch_spec:
  "dispatch mk_call array_concat fetch w ids =
   \<lparr>allResults = success_items (batch_results mk_call fetch w ids),
    errors = failures (batch_results mk_call fetch w ids),
    world = world_after fetch w (batch_calls mk_call ids),
    calls = batch_calls mk_call ids\<rparr>"
  by (simp add: dispatch_def for_batches_foldl foldl_try_batch batch_results_def batch_calls_def
        batches_def)

lemma dispatch_part_000_spec:
  "dispatch mk_call part_000_accumulate fetch w ids =
   \<lparr>allResults = success_items (batch_results mk_call fetch w ids),
    errors = failures (batch_results mk_call fetch w ids),
    world = world_after fetch w (batch_calls mk_call ids),
    calls = batch_calls mk_call ids\<rparr>"
  by (simp only: part_000_accumulate_eq dispatch_spec)

section \<open>The calls of a run\<close>

lemma length_replies: "length (replies fetch w cs) = length cs"
  by (induction cs arbitrary: w) (simp_all split: prod.splits)

lemma length_batch_calls: "length (batch_calls mk_call ids) = length (batches ids)"
  by (simp add: batch_calls_def)

lemma length_batch_results: "length (batch_results mk_call fetch w ids) = length (batches ids)"
  by (simp add: batch_results_def length_replies length_batch_calls)

lemma spec_batch_result_Failure:
  "spec_batch_result i answer = Failure e \<Longrightarrow> batchIndex e = i"
  by (auto simp: spec_batch_result_def caught_def
      split: promise.splits if_splits json.splits)

lemma batches_Nil: "batches [] = []"
  by (simp add: batches_def batches_from_stop)

lemma batches_one:
  assumes "0 < length ids" "length ids \<le> 50"
  shows "batches ids = [(0, ids)]"
proof -
  note first = batches_from_step [OF assms(1)]
  have "batches_from ids 50 = []" using assms by (intro batches_from_stop) simp
  then show ?thesis
    using assms by (simp add: first batches_def BATCH_SIZE_def slice_def)
qed

lemma batches_two:
  assumes "50 < length ids" "length ids \<le> 100"
  shows "batches ids = [(0, take 50 ids), (50, drop 50 ids)]"
proof -
  have "0 < length ids" using assms by linarith
  note first = batches_from_step [OF this]
  note second = batches_from_step [OF assms(1)]
  have "batches_from ids 100 = []" using assms by (intro batches_from_stop) simp
  then show ?thesis
    using assms by (simp add: first second batches_def BATCH_SIZE_def slice_def)
qed

lemma dispatch_Nil:
  "dispatch mk_call accumulate fetch w [] = \<lparr>allResults = [], errors = [], world = w, calls = []\<rparr>"
  by (simp add: dispatch_def for_batches_stop)

lemma calls_foldl_try_batch:
  "calls (foldl (\<lambda>s (j, batch). try_batch mk_call accumulate fetch j batch s) st bs) =
   calls st @ map (\<lambda>(i, batch). mk_call batch) bs"
  by (induction bs arbitrary: st) (auto simp: try_batch_def split: prod.splits)

lemma calls_dispatch: "calls (dispatch mk_call accumulate fetch w ids) = batch_calls mk_call ids"
  by (simp add: dispatch_def for_batches_foldl calls_foldl_try_batch batch_calls_def batches_def)

lemmas part_000_unfold =
  part_000_def part_000_batches_def part_000_respond_def reply_def error_body_def Let_def

lemmas get_place_details_unfold =
  get_place_details_def plain_respond_def reply_def error_body_def Let_def

lemmas server_unfold =
  server_get_place_details_def plain_respond_def reply_def error_body_def Let_def

lemma validPlaceIds_empty_string: "validPlaceIds [[]] = []"
  by (simp add: validPlaceIds_def isNaN_def parseInt_def)

lemma parseInt_7: "parseInt ''7'' = Some 7"
  by (simp add: parseInt_def isWhiteSpace_def is_radix_digit_def digit_value_def mathInt_def Let_def)

lemma validPlaceIds_replicate_7: "validPlaceIds (replicate n ''7'') = replicate n ''7''"
  by (simp add: validPlaceIds_def isNaN_def parseInt_7)

section \<open>Failures and their batches\<close>

lemma set_failures: "e \<in> set (failures rs) \<longleftrightarrow> Failure e \<in> set rs"
  by (induction rs rule: failures.induct) auto

lemma success_items_all_failed: "\<forall>r \<in> set rs. \<not> is_Success r \<Longrightarrow> success_items rs = []"
  by (induction rs rule: success_items.induct) auto

lemma failures_all_failed: "\<forall>r \<in> set rs. \<not> is_Success r \<Longrightarrow> rs \<noteq> [] \<Longrightarrow> failures rs \<noteq> []"
  by (cases rs rule: failures.cases) auto

lemma batch_results_nth:
  assumes "k < length (batches ids)"
  shows "batch_results mk_call fetch w ids ! k =
         spec_batch_result (fst (batches ids ! k)) (replies fetch w (batch_calls mk_call ids) ! k)"
  using assms
  by (simp add: batch_results_def length_replies length_batch_calls split: prod.splits)

lemma batch_results_Failure_nth:
  assumes "k < length (batches ids)" "batch_results mk_call fetch w ids ! k = Failure e"
  shows "batchIndex e = fst (batches ids ! k)"
  using assms spec_batch_result_Failure by (simp add: batch_results_nth)

text \<open>
  C7: every entry of \<open>errors\<close> is the Failure of one batch of the partition, and
  its \<open>batchIndex\<close> is the offset at which that batch starts in the validated
  identifier sequence: 50 times the number of the batch, not the position
  of the entry in \<open>errors\<close>.
\<close>

theorem batchIndex_is_batch_offset:
  "errors (dispatch mk_call part_000_accumulate fetch w ids) =
     failures (batch_results mk_call fetch w ids) \<and>
   (\<forall>e \<in> set (errors (dispatch mk_call part_000_accumulate fetch w ids)).
      \<exists>k < length (batches ids).
        batch_results mk_call fetch w ids ! k = Failure e \<and>
        batchIndex e = 50 * k \<and>
        batches ids ! k = (batchIndex e, take 50 (drop (batchIndex e) ids)))"
proof (intro conjI ballI)
  show spec: "errors (dispatch mk_call part_000_accumulate fetch w ids) =
        failures (batch_results mk_call fetch w ids)"
    by (simp add: dispatch_part_000_spec)
  fix e
  assume "e \<in> set (errors (dispatch mk_call part_000_accumulate fetch w ids))"
  then have "Failure e \<in> set (batch_results mk_call fetch w ids)"
    by (simp add: spec set_failures)
  then obtain k where k: "k < length (batches ids)"
    and at: "batch_results mk_call fetch w ids ! k = Failure e"
    by (auto simp: in_set_conv_nth length_batch_results)
  have "batchIndex e = fst (batches ids ! k)"
    by (rule batch_results_Failure_nth [OF k at])
  moreover have "batches ids ! k = (50 * k, take 50 (drop (50 * k) ids))"
    using batches_nth [OF k] by (simp add: BATCH_SIZE_def slice_def mult.commute)
  ultimately show "\<exists>k < length (batches ids).
        batch_results mk_call fetch w ids ! k = Failure e \<and>
        batchIndex e = 50 * k \<and>
        batches ids ! k = (batchIndex e, take 50 (drop (batchIndex e) ids))"
    using k at by auto
qed

lemma spec_batch_result_404:
  "spec_batch_result i answer_404 =
   Failure \<lparr>batchIndex = i, err_status = 404, err_statusText = ''Not Found'',
            details = ''not found''\<rparr>"
  by (simp add: spec_batch_result_def answer_404_def)

lemma spec_batch_result_200: "spec_batch_result i (answer_200 (JArr items)) = Success items"
  by (simp add: spec_batch_result_def answer_200_def)

lemma batch_results_first_ok_then_404:
  assumes "50 < length ids" "length ids \<le> 100"
  shows "batch_results mk_call (first_ok_then_404 (JArr items)) 0 ids =
         [Success items,
          Failure \<lparr>batchIndex = 50, err_status = 404, err_statusText = ''Not Found'',
                   details = ''not found''\<rparr>]"
  by (simp add: batch_results_def batch_calls_def batches_two [OF assms]
        first_ok_then_404_def spec_batch_result_404 spec_batch_result_200)

theorem batchIndex_is_batch_offset_witness:
  "errors (dispatch (part_000_call None) part_000_accumulate
      (first_ok_then_404 (JArr [JStr ''place''])) 0 (replicate 75 ''7'')) =
   [\<lparr>batchIndex = 50, err_status = 404, err_statusText = ''Not Found'', details = ''not found''\<rparr>] \<and>
   (\<exists>k < length (batches (replicate 75 ''7'')).
      50 = 50 * k \<and> batches (replicate 75 ''7'') ! k = (50, replicate 25 ''7''))"
proof -
  let ?e = "\<lparr>batchIndex = 50, err_status = 404, err_statusText = ''Not Found'',
             details = ''not found''\<rparr>"
  note t = batchIndex_is_batch_offset
    [of "part_000_call None" "first_ok_then_404 (JArr [JStr ''place''])" "0::nat"
        "replicate 75 ''7''"]
  have errs: "errors (dispatch (part_000_call None) part_000_accumulate
      (first_ok_then_404 (JArr [JStr ''place''])) 0 (replicate 75 ''7'')) = [?e]"
    using t by (simp add: batch_results_first_ok_then_404)
  then have "?e \<in> set (errors (dispatch (part_000_call None) part_000_accumulate
      (first_ok_then_404 (JArr [JStr ''place''])) 0 (replicate 75 ''7'')))"
    by simp
  with t have "\<exists>k < length (batches (replicate 75 ''7'')).
      batchIndex ?e = 50 * k \<and>
      batches (replicate 75 ''7'') ! k =
        (batchIndex ?e, take 50 (drop (batchIndex ?e) (replicate 75 ''7'')))"
    by blast
  then show ?thesis using errs by simp
qed

section \<open>The responses of the filtering handler\<close>

lemma part_000_dispatched:
  assumes "req_method req = ''GET''" "placeIds_array (placeIds req) = Some ids"
    "validPlaceIds ids \<noteq> []"
  shows "part_000 cookie fetch w req =
         part_000_respond part_000_headers
           (dispatch (part_000_call cookie) part_000_accumulate fetch w (validPlaceIds ids))"
proof -
  have "\<not> falsy (placeIds req)"
    using assms(2,3) by (cases "placeIds req") (auto simp: trim_def validPlaceIds_empty_string)
  then show ?thesis
    using assms by (simp add: part_000_unfold)
qed

lemma errors_imp_valid:
  "errors (dispatch mk_call accumulate fetch w ids) \<noteq> [] \<Longrightarrow> ids \<noteq> []"
  by (auto simp: dispatch_Nil)

lemma allResults_imp_valid:
  "allResults (dispatch mk_call accumulate fetch w ids) \<noteq> [] \<Longrightarrow> ids \<noteq> []"
  by (auto simp: dispatch_Nil)

lemma part_000_no_valid:
  assumes "req_method req = ''GET''" "\<not> falsy (placeIds req)"
    "placeIds_array (placeIds req) = Some ids" "validPlaceIds ids = []"
  shows "part_000 cookie fetch w req =
         reply w part_000_headers 400 (error_body ''No valid place IDs provided.'')"
  using assms by (simp add: part_000_def part_000_batches_def Let_def)

lemma part_000_missing:
  assumes "req_method req = ''GET''" "falsy (placeIds req)"
  shows "part_000 cookie fetch w req =
         reply w part_000_headers 400 (error_body ''Missing placeIds parameter.'')"
  using assms by (simp add: part_000_def Let_def)

lemma batch_results_always_404:
  assumes "0 < length ids" "length ids \<le> 50"
  shows "batch_results mk_call always_404 0 ids =
         [Failure \<lparr>batchIndex = 0, err_status = 404, err_statusText = ''Not Found'',
                   details = ''not found''\<rparr>]"
  by (simp add: batch_results_def batch_calls_def batches_one [OF assms] always_404_def
        spec_batch_result_404)

lemma validPlaceIds_1_2: "validPlaceIds [''1'', ''2''] = [''1'', ''2'']"
  by (simp add: validPlaceIds_def isNaN_def parseInt_def isWhiteSpace_def is_radix_digit_def
        digit_value_def mathInt_def Let_def)

text \<open>
  C1 as stated fails: with 51 identifiers, the first batch answered 200 with
  an empty array and the second answered 404, one batch has succeeded, yet
  \<open>data\<close> is empty and the status is 500.
\<close>

theorem all_failed_response_counterexample:
  "batch_results (part_000_call None) (first_ok_then_404 (JArr [])) 0
     (validPlaceIds (replicate 51 ''7'')) =
     [Success [],
      Failure \<lparr>batchIndex = 50, err_status = 404, err_statusText = ''Not Found'',
               details = ''not found''\<rparr>] \<and>
   res_status (sent (part_000 None (first_ok_then_404 (JArr [])) 0
     \<lparr>req_method = ''GET'', placeIds = QArr (replicate 51 ''7'')\<rparr>)) = 500"
proof -
  let ?req = "\<lparr>req_method = ''GET'', placeIds = QArr (replicate 51 ''7'')\<rparr>"
  have rs: "batch_results (part_000_call None) (first_ok_then_404 (JArr [])) 0
     (validPlaceIds (replicate 51 ''7'')) =
     [Success [],
      Failure \<lparr>batchIndex = 50, err_status = 404, err_statusText = ''Not Found'',
               details = ''not found''\<rparr>]"
    by (simp add: validPlaceIds_replicate_7 batch_results_first_ok_then_404)
  have "req_method ?req = ''GET''" "placeIds_array (placeIds ?req) = Some (replicate 51 ''7'')"
    "validPlaceIds (replicate 51 ''7'') \<noteq> []"
    by (simp_all add: validPlaceIds_replicate_7)
  note run = part_000_dispatched [OF this, of None "first_ok_then_404 (JArr [])" 0]
  show ?thesis
    unfolding run by (simp add: rs part_000_respond_def dispatch_part_000_spec)
qed

section \<open>Validation\<close>

lemma abc_def_invalid: "validPlaceIds [''abc'', ''def''] = []"
  by (simp add: validPlaceIds_def isNaN_def parseInt_def isWhiteSpace_def is_radix_digit_def
        digit_value_def Let_def)

section \<open>The empty array in the sibling handlers\<close>

text \<open>
  C10: api/get-place-details.js and server.js do not reject an empty array:
  \<open>[]\<close> is truthy, the partition of the empty sequence has no batch, and the
  handler answers 200 with the empty array, having made no upstream call.
\<close>

theorem empty_array_not_rejected:
  assumes "req_method req \<noteq> ''OPTIONS''" and "placeIds req = QArr []"
  shows "\<not> falsy (placeIds req) \<and>
         batches ([] :: string list) = [] \<and>
         res_status (sent (get_place_details cookie fetch w req)) = 200 \<and>
         res_body (sent (get_place_details cookie fetch w req)) = Some (JArr []) \<and>
         upstream_calls (get_place_details cookie fetch w req) = [] \<and>
         res_status (sent (server_get_place_details cookie fetch w (placeIds req))) = 200 \<and>
         res_body (sent (server_get_place_details cookie fetch w (placeIds req))) = Some (JArr []) \<and>
         upstream_calls (server_get_place_details cookie fetch w (placeIds req)) = []"
  using assms
  by (simp add: get_place_details_unfold server_unfold dispatch_Nil batches_Nil plain_headers_def)

theorem empty_array_not_rejected_witness:
  "res_status (sent (get_place_details None always_404 0
      \<lparr>req_method = ''GET'', placeIds = QArr []\<rparr>)) = 200 \<and>
   res_body (sent (get_place_details None always_404 0
      \<lparr>req_method = ''GET'', placeIds = QArr []\<rparr>)) = Some (JArr []) \<and>
   upstream_calls (get_place_details None always_404 0
      \<lparr>req_method = ''GET'', placeIds = QArr []\<rparr>) = [] \<and>
   res_status (sent (server_get_place_details None always_404 0 (QArr []))) = 200 \<and>
   res_body (sent (server_get_place_details None always_404 0 (QArr []))) = Some (JArr []) \<and>
   upstream_calls (server_get_place_details None always_404 0 (QArr [])) = []"
  using empty_array_not_rejected
    [of "\<lparr>req_method = ''GET'', placeIds = QArr []\<rparr>" None always_404 0]
  by simp

section \<open>The two accumulations\<close>

text \<open>
  C9: the two ways of adding a parsed body to \<open>allResults\<close> agree: the branch
  of part_000 (\<open>concat\<close> for an array, \<open>push\<close> for anything else) and the plain
  \<open>allResults.concat(data)\<close> of api/get-place-details.js give the same array,
  for one body, for every sequence of bodies, and in the loop; \<open>concat\<close>
  appends an argument that is no array as one element.
\<close>

theorem accumulation_equivalent:
  "part_000_accumulate results data = array_concat results data \<and>
   foldl part_000_accumulate results bodies = foldl array_concat results bodies \<and>
   dispatch mk_call part_000_accumulate fetch w ids = dispatch mk_call array_concat fetch w ids \<and>
   (\<not> Array_isArray data \<longrightarrow> array_concat results data = push results data)"
proof (intro conjI impI)
  show "part_000_accumulate results data = array_concat results data"
    by (rule part_000_accumulate_concat)
  show "foldl part_000_accumulate results bodies = foldl array_concat results bodies"
    by (simp only: part_000_accumulate_eq)
  show "dispatch mk_call part_000_accumulate fetch w ids = dispatch mk_call array_concat fetch w ids"
    by (simp only: part_000_accumulate_eq)
  assume "\<not> Array_isArray data"
  then show "array_concat results data = push results data"
    by (cases data) (simp_all add: push_def)
qed

theorem accumulation_equivalent_witness:
  "foldl part_000_accumulate [] [JArr [JStr ''a'', JStr ''b''], JObj [(''placeId'', JNum 3)]] =
     [JStr ''a'', JStr ''b'', JObj [(''placeId'', JNum 3)]] \<and>
   foldl array_concat [] [JArr [JStr ''a'', JStr ''b''], JObj [(''placeId'', JNum 3)]] =
     [JStr ''a'', JStr ''b'', JObj [(''placeId'', JNum 3)]] \<and>
   \<not> Array_isArray (JObj [(''placeId'', JNum 3)]) \<and>
   array_concat [] (JObj [(''placeId'', JNum 3)]) = push [] (JObj [(''placeId'', JNum 3)])"
proof -
  let ?bodies = "[JArr [JStr ''a'', JStr ''b''], JObj [(''placeId'', JNum 3)]]"
  note t = accumulation_equivalent [of "[]" "JObj [(''placeId'', JNum 3)]" ?bodies]
  have concat: "foldl array_concat [] ?bodies = [JStr ''a'', JStr ''b'', JObj [(''placeId'', JNum 3)]]"
    by simp
  have folds: "foldl part_000_accumulate [] ?bodies = foldl array_concat [] ?bodies"
    by (rule t [THEN conjunct2, THEN conjunct1])
  have no_array: "\<not> Array_isArray (JObj [(''placeId'', JNum 3)])"
    by simp
  have "array_concat [] (JObj [(''placeId'', JNum 3)]) = push [] (JObj [(''placeId'', JNum 3)])"
    by (rule t [THEN conjunct2, THEN conjunct2, THEN conjunct2, THEN mp, OF no_array])
  then show ?thesis
    using no_array concat folds by (simp only: simp_thms)
qed

section \<open>Determinism\<close>

lemma part_000_batches_replies:
  fixes fetch :: "'w upstream" and fetch' :: "'v upstream"
  assumes "replies fetch w (batch_calls (part_000_call cookie) (validPlaceIds ids)) =
           replies fetch' w' (batch_calls (part_000_call cookie) (validPlaceIds ids))"
  shows "sent (part_000_batches cookie fetch w res ids) =
         sent (part_000_batches cookie fetch' w' res ids)"
    and "upstream_calls (part_000_batches cookie fetch w res ids) =
         upstream_calls (part_000_batches cookie fetch' w' res ids)"
  using assms
  by (simp_all add: part_000_batches_def part_000_respond_def reply_def dispatch_part_000_spec
        batch_results_def)

text \<open>
  C8: the response of the handler is determined by the request, the
  configured token and the answers the upstream gives to the calls of the
  batches: two runs on the same request and token, against upstreams (of
  any kind, in any state) that answer the batches alike, send the same
  response and make the same calls.
\<close>

theorem response_determined_by_replies:
  fixes fetch :: "'w upstream" and fetch' :: "'v upstream"
  assumes "\<forall>ids. placeIds_array (placeIds req) = Some ids \<longrightarrow>
             replies fetch w (batch_calls (part_000_call cookie) (validPlaceIds ids)) =
             replies fetch' w' (batch_calls (part_000_call cookie) (validPlaceIds ids))"
  shows "sent (part_000 cookie fetch w req) = sent (part_000 cookie fetch' w' req) \<and>
         upstream_calls (part_000 cookie fetch w req) =
         upstream_calls (part_000 cookie fetch' w' req)"
proof (cases "placeIds_array (placeIds req)")
  case None
  then show ?thesis by (simp add: part_000_def reply_def Let_def)
next
  case (Some ids)
  with assms have "replies fetch w (batch_calls (part_000_call cookie) (validPlaceIds ids)) =
             replies fetch' w' (batch_calls (part_000_call cookie) (validPlaceIds ids))"
    by simp
  note same = part_000_batches_replies [OF this]
  show ?thesis
    by (simp add: part_000_def reply_def Let_def Some same)
qed

theorem response_determined_by_replies_witness:
  "sent (part_000 None always_404 0 \<lparr>req_method = ''GET'', placeIds = QStr ''1,2''\<rparr>) =
   sent (part_000 None always_404_down 7 \<lparr>req_method = ''GET'', placeIds = QStr ''1,2''\<rparr>) \<and>
   upstream_calls (part_000 None always_404 0 \<lparr>req_method = ''GET'', placeIds = QStr ''1,2''\<rparr>) =
   upstream_calls (part_000 None always_404_down 7
     \<lparr>req_method = ''GET'', placeIds = QStr ''1,2''\<rparr>)"
proof -
  let ?req = "\<lparr>req_method = ''GET'', placeIds = QStr ''1,2''\<rparr>"
  have ids: "placeIds_array (placeIds ?req) = Some [''1'', ''2'']"
    by (simp add: trim_def isWhiteSpace_def)
  have "replies always_404 0 (batch_calls (part_000_call None) (validPlaceIds [''1'', ''2''])) =
        replies always_404_down 7 (batch_calls (part_000_call None) (validPlaceIds [''1'', ''2'']))"
    by (simp add: validPlaceIds_1_2 batch_calls_def batches_one always_404_def always_404_down_def)
  with ids have "\<forall>ids. placeIds_array (placeIds ?req) = Some ids \<longrightarrow>
             replies always_404 0 (batch_calls (part_000_call None) (validPlaceIds ids)) =
             replies always_404_down 7 (batch_calls (part_000_call None) (validPlaceIds ids))"
    by (simp del: placeIds_array.simps)
  from response_determined_by_replies [OF this] show ?thesis .
qed

section \<open>The filter\<close>

lemma is_digit_radix: "is_digit c \<Longrightarrow> is_radix_digit 10 c"
  by (auto simp: is_digit_def is_radix_digit_def digit_value_def Let_def)

lemma is_digit_not_space: "is_digit c \<Longrightarrow> \<not> isWhiteSpace c"
  by (auto simp: is_digit_def isWhiteSpace_def)

lemma is_digit_not_x: "is_digit c \<Longrightarrow> c \<noteq> CHR ''x'' \<and> c \<noteq> CHR ''X''"
  by (auto simp: is_digit_def)

lemma digits_parse:
  assumes "ds \<noteq> []" "list_all is_digit ds"
  shows "\<not> (2 \<le> length ds \<and> (take 2 ds = ''0x'' \<or> take 2 ds = ''0X''))"
    and "takeWhile (is_radix_digit 10) ds = ds"
proof -
  show "takeWhile (is_radix_digit 10) ds = ds"
    using assms(2) by (induction ds) (simp_all add: is_digit_radix)
  show "\<not> (2 \<le> length ds \<and> (take 2 ds = ''0x'' \<or> take 2 ds = ''0X''))"
  proof (cases ds)
    case Nil
    then show ?thesis by simp
  next
    case (Cons a as)
    then show ?thesis
      using assms(2) is_digit_not_x by (cases as) auto
  qed
qed

lemma decimal_integers_survive:
  assumes "spec_decimal_integer s"
  shows "\<not> isNaN (parseInt s)"
proof -
  define ds where "ds = (if s \<noteq> [] \<and> (hd s = CHR ''+'' \<or> hd s = CHR ''-'') then tl s else s)"
  have ds: "ds \<noteq> []" "list_all is_digit ds"
    using assms by (simp_all add: spec_decimal_integer_def ds_def Let_def)
  then have s: "s \<noteq> []" by (auto simp: ds_def split: if_splits)
  have sign: "\<not> isWhiteSpace CHR ''+''" "\<not> isWhiteSpace CHR ''-''"
    by (simp_all add: isWhiteSpace_def)
  have "\<not> isWhiteSpace (hd s)"
    using ds s sign by (cases s) (auto simp: ds_def is_digit_not_space split: if_splits)
  then have skip: "dropWhile isWhiteSpace s = s"
    using s by (cases s) simp_all
  have no_hex: "(2 \<le> length ds \<and> (take 2 ds = ''0x'' \<or> take 2 ds = ''0X'')) = False"
    using digits_parse(1) [OF ds] by blast
  have all_digits: "takeWhile (is_radix_digit 10) ds = ds"
    by (rule digits_parse(2) [OF ds])
  have "parseInt s = Some ((if s \<noteq> [] \<and> hd s = CHR ''-'' then - 1 else 1) * mathInt 10 ds)"
    unfolding parseInt_def Let_def skip ds_def [symmetric] no_hex if_False all_digits
    using ds(1) by simp
  then show ?thesis
    by (simp add: isNaN_def)
qed

text \<open>
  C2 at \<open>placeIds=12abc,abc\<close>: the filter keeps \<open>12abc\<close>, which is not an
  optional sign followed by digits only, and the handler sends it upstream
  as it stands; only \<open>abc\<close> is dropped.
\<close>

theorem filter_keeps_trailing_text:
  "validPlaceIds (map trim (split CHR '','' ''12abc,abc'')) = [''12abc''] \<and>
   \<not> spec_decimal_integer ''12abc'' \<and>
   map url (upstream_calls (part_000 None always_404 0
      \<lparr>req_method = ''GET'', placeIds = QStr ''12abc,abc''\<rparr>)) =
     [''https://games.roblox.com/v1/games/multiget-place-details?placeIds=12abc'']"
proof -
  let ?req = "\<lparr>req_method = ''GET'', placeIds = QStr ''12abc,abc''\<rparr>"
  have ids: "map trim (split CHR '','' ''12abc,abc'') = [''12abc'', ''abc'']"
    by (simp add: trim_def isWhiteSpace_def)
  have valid: "validPlaceIds [''12abc'', ''abc''] = [''12abc'']"
    by (simp add: validPlaceIds_def isNaN_def parseInt_def isWhiteSpace_def is_radix_digit_def
        digit_value_def mathInt_def Let_def)
  have strict: "\<not> spec_decimal_integer ''12abc''"
    by (simp add: spec_decimal_integer_def is_digit_def Let_def)
  have "req_method ?req = ''GET''" "placeIds_array (placeIds ?req) = Some [''12abc'', ''abc'']"
    "validPlaceIds [''12abc'', ''abc''] \<noteq> []"
    by (simp_all add: ids valid del: split.simps)
  note run = part_000_dispatched [OF this, of None always_404 0]
  have url: "batch_url [''12abc''] =
      ''https://games.roblox.com/v1/games/multiget-place-details?placeIds=12abc''"
    by (simp add: batch_url_def ROBLOX_API_BASE_URL_def encodeURIComponent_def encode_unit_def
        uri_unreserved_def Let_def)
  have "map url (upstream_calls (part_000 None always_404 0 ?req)) = [batch_url [''12abc'']]"
    unfolding run
    by (simp add: part_000_respond_def calls_dispatch batch_calls_def valid batches_one
        part_000_call_def)
  then show ?thesis
    using ids valid strict url by (simp only: simp_thms)
qed

section \<open>The sibling handlers\<close>

text \<open>
  api/get-place-details.js and server.js have no 500 branch: whenever a batch
  failed they answer 200 with the data, the errors and a message, also when
  every batch failed; the message of server.js is longer.
\<close>

lemma siblings_failed_response:
  assumes "\<not> falsy q" and "placeIds_array q = Some ids"
    and "st = dispatch (plain_call cookie) array_concat fetch w ids"
    and "errors st \<noteq> []"
  shows "sent (get_place_details cookie fetch w \<lparr>req_method = ''GET'', placeIds = q\<rparr>) =
           plain_headers
           \<lparr>res_status := 200,
            res_body := Some (JObj [(''data'', JArr (allResults st)),
                                    (''errors'', JArr (map error_json (errors st))),
                                    (''message'', JStr ''Some batches failed.'')])\<rparr>"
    and "sent (server_get_place_details cookie fetch w q) =
           plain_headers
           \<lparr>res_status := 200,
            res_body := Some (JObj [(''data'', JArr (allResults st)),
                                    (''errors'', JArr (map error_json (errors st))),
                                    (''message'',
                                     JStr ''Some batches failed to fetch data from Roblox API.'')])\<rparr>"
  using assms(1,2,4) unfolding assms(3)
  by (simp_all add: get_place_details_unfold server_unfold)

lemma siblings_all_failed_example:
  "res_status (sent (get_place_details None always_404 0
      \<lparr>req_method = ''GET'', placeIds = QStr ''1,2''\<rparr>)) = 200"
proof -
  have q: "\<not> falsy (QStr ''1,2'')" "placeIds_array (QStr ''1,2'') = Some [''1'', ''2'']"
    by (simp_all add: trim_def isWhiteSpace_def)
  have "errors (dispatch (plain_call None) array_concat always_404 0 [''1'', ''2'']) \<noteq> []"
    by (simp add: dispatch_spec batch_results_always_404)
  from siblings_failed_response(1) [OF q refl this] show ?thesis
    by simp
qed

section \<open>Every batch is dispatched\<close>

lemma world_foldl_try_batch:
  "world (foldl (\<lambda>s (j, batch). try_batch mk_call accumulate fetch j batch s) st bs) =
   world_after fetch (world st) (map (\<lambda>(i, batch). mk_call batch) bs)"
  by (induction bs arbitrary: st) (auto simp: try_batch_def split: prod.splits)

lemma world_dispatch:
  "world (dispatch mk_call accumulate fetch w ids) = world_after fetch w (batch_calls mk_call ids)"
  by (simp add: dispatch_def for_batches_foldl world_foldl_try_batch batch_calls_def batches_def)

lemma world_after_Nil: "world_after fetch w [] = w"
  by simp

text \<open>
  C5: every batch of the partition is dispatched exactly once, in partition
  order, whatever the upstream answers to earlier batches (a non-2xx answer,
  a thrown error). The calls a run makes are the calls of its batches; the
  upstream is asked each of them in turn, so that its world after the run
  is the world after answering exactly these calls; every batch has one
  result, made from the answer to its own call; \<open>allResults\<close> and \<open>errors\<close>
  hold these results. This holds for every upstream and every world, in all
  three handlers.
\<close>

theorem every_batch_dispatched_once:
  "calls (dispatch mk_call accumulate fetch w ids) = map (\<lambda>(i, batch). mk_call batch) (batches ids) \<and>
   world (dispatch mk_call accumulate fetch w ids) =
     world_after fetch w (map (\<lambda>(i, batch). mk_call batch) (batches ids)) \<and>
   length (batch_results mk_call fetch w ids) = length (batches ids) \<and>
   batch_results mk_call fetch w ids =
     map (\<lambda>((i, batch), answer). spec_batch_result i answer)
       (zip (batches ids) (replies fetch w (map (\<lambda>(i, batch). mk_call batch) (batches ids)))) \<and>
   allResults (dispatch mk_call part_000_accumulate fetch w ids) =
     success_items (batch_results mk_call fetch w ids) \<and>
   errors (dispatch mk_call part_000_accumulate fetch w ids) =
     failures (batch_results mk_call fetch w ids) \<and>
   allResults (dispatch mk_call array_concat fetch w ids) =
     success_items (batch_results mk_call fetch w ids) \<and>
   errors (dispatch mk_call array_concat fetch w ids) =
     failures (batch_results mk_call fetch w ids) \<and>
   upstream_calls (part_000 cookie fetch w \<lparr>req_method = ''GET'', placeIds = q\<rparr>) =
     (case placeIds_array q of
        None \<Rightarrow> []
      | Some ids \<Rightarrow> map (\<lambda>(i, batch). part_000_call cookie batch) (batches (validPlaceIds ids))) \<and>
   final_world (part_000 cookie fetch w \<lparr>req_method = ''GET'', placeIds = q\<rparr>) =
     (case placeIds_array q of
        None \<Rightarrow> w
      | Some ids \<Rightarrow>
          world_after fetch w
            (map (\<lambda>(i, batch). part_000_call cookie batch) (batches (validPlaceIds ids)))) \<and>
   upstream_calls (get_place_details cookie fetch w \<lparr>req_method = ''GET'', placeIds = q\<rparr>) =
     (if falsy q then []
      else case placeIds_array q of
        None \<Rightarrow> []
      | Some ids \<Rightarrow> map (\<lambda>(i, batch). plain_call cookie batch) (batches ids)) \<and>
   final_world (get_place_details cookie fetch w \<lparr>req_method = ''GET'', placeIds = q\<rparr>) =
     (if falsy q then w
      else case placeIds_array q of
        None \<Rightarrow> w
      | Some ids \<Rightarrow> world_after fetch w (map (\<lambda>(i, batch). plain_call cookie batch) (batches ids))) \<and>
   upstream_calls (server_get_place_details cookie fetch w q) =
     (if falsy q then []
      else case placeIds_array q of
        None \<Rightarrow> []
      | Some ids \<Rightarrow> map (\<lambda>(i, batch). plain_call cookie batch) (batches ids)) \<and>
   final_world (server_get_place_details cookie fetch w q) =
     (if falsy q then w
      else case placeIds_array q of
        None \<Rightarrow> w
      | Some ids \<Rightarrow> world_after fetch w (map (\<lambda>(i, batch). plain_call cookie batch) (batches ids)))"
proof (intro conjI)
  show "calls (dispatch mk_call accumulate fetch w ids) =
        map (\<lambda>(i, batch). mk_call batch) (batches ids)"
    by (simp add: calls_dispatch batch_calls_def)
  show "world (dispatch mk_call accumulate fetch w ids) =
     world_after fetch w (map (\<lambda>(i, batch). mk_call batch) (batches ids))"
    by (simp add: world_dispatch batch_calls_def)
  show "length (batch_results mk_call fetch w ids) = length (batches ids)"
    by (rule length_batch_results)
  show "batch_results mk_call fetch w ids =
     map (\<lambda>((i, batch), answer). spec_batch_result i answer)
       (zip (batches ids) (replies fetch w (map (\<lambda>(i, batch). mk_call batch) (batches ids))))"
    by (simp add: batch_results_def batch_calls_def)
  show "allResults (dispatch mk_call part_000_accumulate fetch w ids) =
     success_items (batch_results mk_call fetch w ids)"
    and "errors (dispatch mk_call part_000_accumulate fetch w ids) =
     failures (batch_results mk_call fetch w ids)"
    by (simp_all add: dispatch_part_000_spec)
  show "allResults (dispatch mk_call array_concat fetch w ids) =
     success_items (batch_results mk_call fetch w ids)"
    and "errors (dispatch mk_call array_concat fetch w ids) =
     failures (batch_results mk_call fetch w ids)"
    by (simp_all add: dispatch_spec)
  show "upstream_calls (part_000 cookie fetch w \<lparr>req_method = ''GET'', placeIds = q\<rparr>) =
     (case placeIds_array q of
        None \<Rightarrow> []
      | Some ids \<Rightarrow> map (\<lambda>(i, batch). part_000_call cookie batch) (batches (validPlaceIds ids)))"
    by (cases q)
       (simp_all add: part_000_unfold calls_dispatch batch_calls_def batches_Nil trim_def
          validPlaceIds_empty_string)
  show "final_world (part_000 cookie fetch w \<lparr>req_method = ''GET'', placeIds = q\<rparr>) =
     (case placeIds_array q of
        None \<Rightarrow> w
      | Some ids \<Rightarrow>
          world_after fetch w
            (map (\<lambda>(i, batch). part_000_call cookie batch) (batches (validPlaceIds ids))))"
    by (cases q)
       (simp_all add: part_000_unfold world_dispatch batch_calls_def batches_Nil trim_def
          validPlaceIds_empty_string)
  show "upstream_calls (get_place_details cookie fetch w \<lparr>req_method = ''GET'', placeIds = q\<rparr>) =
     (if falsy q then []
      else case placeIds_array q of
        None \<Rightarrow> []
      | Some ids \<Rightarrow> map (\<lambda>(i, batch). plain_call cookie batch) (batches ids))"
    by (cases q)
       (simp_all add: get_place_details_unfold calls_dispatch batch_calls_def)
  show "final_world (get_place_details cookie fetch w \<lparr>req_method = ''GET'', placeIds = q\<rparr>) =
     (if falsy q then w
      else case placeIds_array q of
        None \<Rightarrow> w
      | Some ids \<Rightarrow> world_after fetch w (map (\<lambda>(i, batch). plain_call cookie batch) (batches ids)))"
    by (cases q)
       (simp_all add: get_place_details_unfold world_dispatch batch_calls_def)
  show "upstream_calls (server_get_place_details cookie fetch w q) =
     (if falsy q then []
      else case placeIds_array q of
        None \<Rightarrow> []
      | Some ids \<Rightarrow> map (\<lambda>(i, batch). plain_call cookie batch) (batches ids))"
    by (cases q)
       (simp_all add: server_unfold calls_dispatch batch_calls_def)
  show "final_world (server_get_place_details cookie fetch w q) =
     (if falsy q then w
      else case placeIds_array q of
        None \<Rightarrow> w
      | Some ids \<Rightarrow> world_after fetch w (map (\<lambda>(i, batch). plain_call cookie batch) (batches ids)))"
    by (cases q)
       (simp_all add: server_unfold world_dispatch batch_calls_def)
qed

theorem every_batch_dispatched_once_witness:
  "upstream_calls (part_000 None always_404 0
     \<lparr>req_method = ''GET'', placeIds = QArr (replicate 51 ''7'')\<rparr>) =
   [part_000_call None (replicate 50 ''7''), part_000_call None [''7'']] \<and>
   final_world (part_000 None always_404 0
     \<lparr>req_method = ''GET'', placeIds = QArr (replicate 51 ''7'')\<rparr>) = 2 \<and>
   errors (dispatch (part_000_call None) part_000_accumulate always_404 0 (replicate 51 ''7'')) =
   [\<lparr>batchIndex = 0, err_status = 404, err_statusText = ''Not Found'', details = ''not found''\<rparr>,
    \<lparr>batchIndex = 50, err_status = 404, err_statusText = ''Not Found'', details = ''not found''\<rparr>]"
proof -
  have two: "batches (replicate 51 ''7'') = [(0, replicate 50 ''7''), (50, [''7''])]"
    by (simp add: batches_two)
  note t = every_batch_dispatched_once
      [where cookie = None and fetch = always_404 and w = "0::nat"
         and q = "QArr (replicate 51 ''7'')" and mk_call = "part_000_call None"
         and ids = "replicate 51 ''7''"]
  have rs: "batch_results (part_000_call None) always_404 0 (replicate 51 ''7'') =
    [Failure \<lparr>batchIndex = 0, err_status = 404, err_statusText = ''Not Found'',
              details = ''not found''\<rparr>,
     Failure \<lparr>batchIndex = 50, err_status = 404, err_statusText = ''Not Found'',
              details = ''not found''\<rparr>]"
    using t by (simp add: two always_404_def spec_batch_result_404)
  show ?thesis
    using t by (simp add: validPlaceIds_replicate_7 two rs always_404_def)
qed

section \<open>The status of the filtering handler\<close>

lemma batch_results_Nil_iff: "batch_results mk_call fetch w ids = [] \<longleftrightarrow> ids = []"
proof
  assume "batch_results mk_call fetch w ids = []"
  then have "length (batches ids) = 0"
    using length_batch_results [of mk_call fetch w ids] by simp
  then have "(length ids + 49) div 50 = 0" by (simp add: length_batches)
  then show "ids = []" by (simp add: div_eq_0_iff)
next
  assume "ids = []"
  then show "batch_results mk_call fetch w ids = []"
    by (simp add: batch_results_def batches_Nil)
qed

lemma batch_results_one_ok:
  assumes "0 < length ids" "length ids \<le> 50"
  shows "batch_results mk_call (first_ok_then_404 (JArr items)) 0 ids = [Success items]"
  by (simp add: batch_results_def batch_calls_def batches_one [OF assms] first_ok_then_404_def
        spec_batch_result_200)

text \<open>
  C1, as the code has it: in the filtering handler, when the dispatch of a
  request leaves \<open>errors\<close> non-empty and \<open>data\<close> empty (so in particular when
  every batch failed), the response is 500 with the body
  \<open>{error: "All requests failed", errors}\<close>. In every other case in which
  batches were dispatched the status is 200: when no batch failed, also with
  \<open>data\<close> empty, and when \<open>data\<close> is non-empty. So the status is 200 whenever a
  batch succeeded, unless another batch failed and no batch returned an item.
\<close>

theorem all_failed_response:
  assumes "req_method req = ''GET''"
    and "placeIds_array (placeIds req) = Some ids"
    and "st = dispatch (part_000_call cookie) part_000_accumulate fetch w (validPlaceIds ids)"
    and "rs = batch_results (part_000_call cookie) fetch w (validPlaceIds ids)"
  shows "allResults st = success_items rs \<and> errors st = failures rs \<and>
         (errors st \<noteq> [] \<and> allResults st = [] \<longrightarrow>
            res_status (sent (part_000 cookie fetch w req)) = 500 \<and>
            res_body (sent (part_000 cookie fetch w req)) =
              Some (JObj [(''error'', JStr ''All requests failed''),
                          (''errors'', JArr (map error_json (errors st)))])) \<and>
         (rs \<noteq> [] \<and> (\<forall>r \<in> set rs. \<not> is_Success r) \<longrightarrow>
            errors st \<noteq> [] \<and> allResults st = []) \<and>
         (allResults st \<noteq> [] \<longrightarrow> (\<exists>r \<in> set rs. is_Success r)) \<and>
         (rs \<noteq> [] \<and> \<not> (errors st \<noteq> [] \<and> allResults st = []) \<longrightarrow>
            (\<exists>r \<in> set rs. is_Success r) \<and>
            res_status (sent (part_000 cookie fetch w req)) = 200)"
proof (intro conjI impI)
  let ?st = "dispatch (part_000_call cookie) part_000_accumulate fetch w (validPlaceIds ids)"
  show spec: "allResults st = success_items rs" "errors st = failures rs"
    unfolding assms(3,4) dispatch_part_000_spec by simp_all
  {
    assume a: "errors st \<noteq> [] \<and> allResults st = []"
    then have "errors ?st \<noteq> []" using assms(3) by simp
    then have "validPlaceIds ids \<noteq> []" by (rule errors_imp_valid)
    note run = part_000_dispatched [OF assms(1,2) this, of cookie fetch w, folded assms(3)]
    show "res_status (sent (part_000 cookie fetch w req)) = 500"
      and "res_body (sent (part_000 cookie fetch w req)) =
              Some (JObj [(''error'', JStr ''All requests failed''),
                          (''errors'', JArr (map error_json (errors st)))])"
      unfolding run part_000_respond_def using a by simp_all
  }
  {
    assume a: "rs \<noteq> [] \<and> (\<forall>r \<in> set rs. \<not> is_Success r)"
    then show "errors st \<noteq> []" "allResults st = []"
      by (simp_all add: spec failures_all_failed success_items_all_failed)
  }
  {
    assume a: "allResults st \<noteq> []"
    show "\<exists>r \<in> set rs. is_Success r"
      using a success_items_all_failed [of rs] unfolding spec by blast
  }
  {
    assume a: "rs \<noteq> [] \<and> \<not> (errors st \<noteq> [] \<and> allResults st = [])"
    then have "validPlaceIds ids \<noteq> []"
      unfolding assms(4) by (simp add: batch_results_Nil_iff)
    note run = part_000_dispatched [OF assms(1,2) this, of cookie fetch w, folded assms(3)]
    show "res_status (sent (part_000 cookie fetch w req)) = 200"
      unfolding run part_000_respond_def using a by auto
    show "\<exists>r \<in> set rs. is_Success r"
      using a failures_all_failed [of rs] success_items_all_failed [of rs]
      unfolding spec by blast
  }
qed

theorem all_failed_response_witness:
  "res_status (sent (part_000 None always_404 0
      \<lparr>req_method = ''GET'', placeIds = QStr ''1,2''\<rparr>)) = 500 \<and>
   res_body (sent (part_000 None always_404 0
      \<lparr>req_method = ''GET'', placeIds = QStr ''1,2''\<rparr>)) =
     Some (JObj [(''error'', JStr ''All requests failed''),
                 (''errors'', JArr [JObj [(''batchIndex'', JNum 0), (''status'', JNum 404),
                                          (''statusText'', JStr ''Not Found''),
                                          (''details'', JStr ''not found'')]])]) \<and>
   batch_results (part_000_call None) (first_ok_then_404 (JArr [])) 0 (validPlaceIds [''1'', ''2'']) =
     [Success []] \<and>
   res_status (sent (part_000 None (first_ok_then_404 (JArr [])) 0
      \<lparr>req_method = ''GET'', placeIds = QStr ''1,2''\<rparr>)) = 200"
proof -
  let ?req = "\<lparr>req_method = ''GET'', placeIds = QStr ''1,2''\<rparr>"
  have req: "req_method ?req = ''GET''" "placeIds_array (placeIds ?req) = Some [''1'', ''2'']"
    by (simp_all add: trim_def isWhiteSpace_def)
  define st where
    "st = dispatch (part_000_call None) part_000_accumulate always_404 0 (validPlaceIds [''1'', ''2''])"
  define rs where
    "rs = batch_results (part_000_call None) always_404 0 (validPlaceIds [''1'', ''2''])"
  have rs: "rs = [Failure \<lparr>batchIndex = 0, err_status = 404, err_statusText = ''Not Found'',
                   details = ''not found''\<rparr>]"
    by (simp add: rs_def validPlaceIds_1_2 batch_results_always_404)
  note t = all_failed_response [OF req st_def rs_def]
  have "rs \<noteq> [] \<and> (\<forall>r \<in> set rs. \<not> is_Success r)" by (simp add: rs)
  with t have all_failed: "errors st \<noteq> [] \<and> allResults st = []" by blast
  have "errors st = [\<lparr>batchIndex = 0, err_status = 404, err_statusText = ''Not Found'',
                   details = ''not found''\<rparr>]"
    using t rs by simp
  with t all_failed have failed:
    "res_status (sent (part_000 None always_404 0 ?req)) = 500 \<and>
     res_body (sent (part_000 None always_404 0 ?req)) =
     Some (JObj [(''error'', JStr ''All requests failed''),
                 (''errors'', JArr [JObj [(''batchIndex'', JNum 0), (''status'', JNum 404),
                                          (''statusText'', JStr ''Not Found''),
                                          (''details'', JStr ''not found'')]])])"
    by (simp add: error_json_def)
  define st' where
    "st' = dispatch (part_000_call None) part_000_accumulate (first_ok_then_404 (JArr [])) 0
             (validPlaceIds [''1'', ''2''])"
  define rs' where
    "rs' = batch_results (part_000_call None) (first_ok_then_404 (JArr [])) 0
             (validPlaceIds [''1'', ''2''])"
  have rs': "rs' = [Success []]"
    by (simp add: rs'_def validPlaceIds_1_2 batch_results_one_ok)
  note t' = all_failed_response [OF req st'_def rs'_def]
  from t' rs' have "errors st' = []" by simp
  then have "rs' \<noteq> [] \<and> \<not> (errors st' \<noteq> [] \<and> allResults st' = [])"
    by (simp add: rs')
  with t' have "res_status (sent (part_000 None (first_ok_then_404 (JArr [])) 0 ?req)) = 200"
    by blast
  with failed rs' show ?thesis
    unfolding rs'_def by (simp only: simp_thms)
qed

section \<open>The partial success response\<close>

text \<open>
  C4, as the code has it: when the dispatch of a GET request leaves \<open>errors\<close>
  and \<open>data\<close> both non-empty, the handler answers 200 with the body
  \<open>{data, errors, message}\<close>, where \<open>data\<close> is the items of the Success results
  put together in batch order and \<open>errors\<close> is the Failures in batch order.
  The message is "Some batches failed." in the filtering handler and in
  api/get-place-details.js, and "Some batches failed to fetch data from
  Roblox API." in server.js.
\<close>

theorem partial_success_response:
  assumes "req_method req = ''GET''"
    and "placeIds_array (placeIds req) = Some ids"
    and "st = dispatch (part_000_call cookie) part_000_accumulate fetch w (validPlaceIds ids)"
    and "st' = dispatch (plain_call cookie) array_concat fetch w ids"
  shows "(errors st \<noteq> [] \<and> allResults st \<noteq> [] \<longrightarrow>
           res_status (sent (part_000 cookie fetch w req)) = 200 \<and>
           res_body (sent (part_000 cookie fetch w req)) =
             Some (JObj [(''data'', JArr (allResults st)),
                         (''errors'', JArr (map error_json (errors st))),
                         (''message'', JStr ''Some batches failed.'')]) \<and>
           allResults st =
             success_items (batch_results (part_000_call cookie) fetch w (validPlaceIds ids)) \<and>
           errors st = failures (batch_results (part_000_call cookie) fetch w (validPlaceIds ids))) \<and>
         (\<not> falsy (placeIds req) \<and> errors st' \<noteq> [] \<and> allResults st' \<noteq> [] \<longrightarrow>
           res_status (sent (server_get_place_details cookie fetch w (placeIds req))) = 200 \<and>
           res_body (sent (server_get_place_details cookie fetch w (placeIds req))) =
             Some (JObj [(''data'', JArr (allResults st')),
                         (''errors'', JArr (map error_json (errors st'))),
                         (''message'', JStr ''Some batches failed to fetch data from Roblox API.'')]) \<and>
           res_status (sent (get_place_details cookie fetch w req)) = 200 \<and>
           res_body (sent (get_place_details cookie fetch w req)) =
             Some (JObj [(''data'', JArr (allResults st')),
                         (''errors'', JArr (map error_json (errors st'))),
                         (''message'', JStr ''Some batches failed.'')]) \<and>
           allResults st' = success_items (batch_results (plain_call cookie) fetch w ids) \<and>
           errors st' = failures (batch_results (plain_call cookie) fetch w ids))"
proof (intro conjI impI)
  let ?st = "dispatch (part_000_call cookie) part_000_accumulate fetch w (validPlaceIds ids)"
  {
    assume a: "errors st \<noteq> [] \<and> allResults st \<noteq> []"
    then have "errors ?st \<noteq> []" using assms(3) by simp
    then have "validPlaceIds ids \<noteq> []" by (rule errors_imp_valid)
    note run = part_000_dispatched [OF assms(1,2) this, of cookie fetch w, folded assms(3)]
    show "res_status (sent (part_000 cookie fetch w req)) = 200"
      and "res_body (sent (part_000 cookie fetch w req)) =
             Some (JObj [(''data'', JArr (allResults st)),
                         (''errors'', JArr (map error_json (errors st))),
                         (''message'', JStr ''Some batches failed.'')])"
      unfolding run part_000_respond_def using a by simp_all
    show "allResults st =
        success_items (batch_results (part_000_call cookie) fetch w (validPlaceIds ids))"
      and "errors st = failures (batch_results (part_000_call cookie) fetch w (validPlaceIds ids))"
      unfolding assms(3) dispatch_part_000_spec by simp_all
  }
  {
    assume a: "\<not> falsy (placeIds req) \<and> errors st' \<noteq> [] \<and> allResults st' \<noteq> []"
    then have q: "\<not> falsy (placeIds req)" and e: "errors st' \<noteq> []" by simp_all
    have req: "req = \<lparr>req_method = ''GET'', placeIds = placeIds req\<rparr>"
      using assms(1) by (cases req) simp
    note sib = siblings_failed_response [OF q assms(2,4) e, of ]
    show "res_status (sent (server_get_place_details cookie fetch w (placeIds req))) = 200"
      and "res_body (sent (server_get_place_details cookie fetch w (placeIds req))) =
             Some (JObj [(''data'', JArr (allResults st')),
                         (''errors'', JArr (map error_json (errors st'))),
                         (''message'', JStr ''Some batches failed to fetch data from Roblox API.'')])"
      unfolding sib(2) by simp_all
    show "res_status (sent (get_place_details cookie fetch w req)) = 200"
      and "res_body (sent (get_place_details cookie fetch w req)) =
             Some (JObj [(''data'', JArr (allResults st')),
                         (''errors'', JArr (map error_json (errors st'))),
                         (''message'', JStr ''Some batches failed.'')])"
      using sib(1) req by simp_all
    show "allResults st' = success_items (batch_results (plain_call cookie) fetch w ids)"
      and "errors st' = failures (batch_results (plain_call cookie) fetch w ids)"
      unfolding assms(4) dispatch_spec by simp_all
  }
qed

theorem partial_success_response_witness:
  "res_status (sent (part_000 None (first_ok_then_404 (JArr [JStr ''place''])) 0
     \<lparr>req_method = ''GET'', placeIds = QArr (replicate 75 ''7'')\<rparr>)) = 200 \<and>
   res_body (sent (part_000 None (first_ok_then_404 (JArr [JStr ''place''])) 0
     \<lparr>req_method = ''GET'', placeIds = QArr (replicate 75 ''7'')\<rparr>)) =
     Some (JObj [(''data'', JArr [JStr ''place'']),
                 (''errors'', JArr [JObj [(''batchIndex'', JNum 50), (''status'', JNum 404),
                                          (''statusText'', JStr ''Not Found''),
                                          (''details'', JStr ''not found'')]]),
                 (''message'', JStr ''Some batches failed.'')]) \<and>
   res_status (sent (server_get_place_details None (first_ok_then_404 (JArr [JStr ''place''])) 0
     (QArr (replicate 75 ''7'')))) = 200 \<and>
   res_body (sent (server_get_place_details None (first_ok_then_404 (JArr [JStr ''place''])) 0
     (QArr (replicate 75 ''7'')))) =
     Some (JObj [(''data'', JArr [JStr ''place'']),
                 (''errors'', JArr [JObj [(''batchIndex'', JNum 50), (''status'', JNum 404),
                                          (''statusText'', JStr ''Not Found''),
                                          (''details'', JStr ''not found'')]]),
                 (''message'', JStr ''Some batches failed to fetch data from Roblox API.'')])"
proof -
  let ?fetch = "first_ok_then_404 (JArr [JStr ''place''])"
  let ?req = "\<lparr>req_method = ''GET'', placeIds = QArr (replicate 75 ''7'')\<rparr>"
  let ?e = "\<lparr>batchIndex = 50, err_status = 404, err_statusText = ''Not Found'',
             details = ''not found''\<rparr>"
  define st where
    "st = dispatch (part_000_call None) part_000_accumulate ?fetch 0 (validPlaceIds (replicate 75 ''7''))"
  define st' where
    "st' = dispatch (plain_call None) array_concat ?fetch 0 (replicate 75 ''7'')"
  have st: "allResults st = [JStr ''place'']" "errors st = [?e]"
    by (simp_all add: st_def dispatch_part_000_spec validPlaceIds_replicate_7
          batch_results_first_ok_then_404)
  have st': "allResults st' = [JStr ''place'']" "errors st' = [?e]"
    by (simp_all add: st'_def dispatch_spec batch_results_first_ok_then_404)
  have req: "req_method ?req = ''GET''" "placeIds_array (placeIds ?req) = Some (replicate 75 ''7'')"
    by simp_all
  note t = partial_success_response [OF req st_def st'_def]
  have "errors st \<noteq> [] \<and> allResults st \<noteq> []"
    and "\<not> falsy (placeIds ?req) \<and> errors st' \<noteq> [] \<and> allResults st' \<noteq> []"
    by (simp_all add: st st')
  with t show ?thesis
    by (simp add: st st' error_json_def)
qed

text \<open>
  C4 as stated fails on server.js: with 75 identifiers, the first batch
  answered 200 with one record and the second answered 404, \<open>data\<close> and
  \<open>errors\<close> are both non-empty and the message sent is not
  "Some batches failed.".
\<close>

theorem partial_success_response_counterexample:
  "res_body (sent (server_get_place_details None (first_ok_then_404 (JArr [JStr ''place''])) 0
     (QArr (replicate 75 ''7'')))) =
     Some (JObj [(''data'', JArr [JStr ''place'']),
                 (''errors'', JArr [JObj [(''batchIndex'', JNum 50), (''status'', JNum 404),
                                          (''statusText'', JStr ''Not Found''),
                                          (''details'', JStr ''not found'')]]),
                 (''message'', JStr ''Some batches failed to fetch data from Roblox API.'')]) \<and>
   res_body (sent (server_get_place_details None (first_ok_then_404 (JArr [JStr ''place''])) 0
     (QArr (replicate 75 ''7'')))) \<noteq>
     Some (JObj [(''data'', JArr [JStr ''place'']),
                 (''errors'', JArr [JObj [(''batchIndex'', JNum 50), (''status'', JNum 404),
                                          (''statusText'', JStr ''Not Found''),
                                          (''details'', JStr ''not found'')]]),
                 (''message'', JStr ''Some batches failed.'')])"
proof -
  let ?fetch = "first_ok_then_404 (JArr [JStr ''place''])"
  have q: "\<not> falsy (QArr (replicate 75 ''7''))"
    "placeIds_array (QArr (replicate 75 ''7'')) = Some (replicate 75 ''7'')"
    by simp_all
  have st': "allResults (dispatch (plain_call None) array_concat ?fetch 0 (replicate 75 ''7'')) =
      [JStr ''place'']"
    "errors (dispatch (plain_call None) array_concat ?fetch 0 (replicate 75 ''7'')) =
      [\<lparr>batchIndex = 50, err_status = 404, err_statusText = ''Not Found'',
        details = ''not found''\<rparr>]"
    by (simp_all add: dispatch_spec batch_results_first_ok_then_404)
  then have "errors (dispatch (plain_call None) array_concat ?fetch 0 (replicate 75 ''7'')) \<noteq> []"
    by simp
  from siblings_failed_response(2) [OF q refl this]
  show ?thesis
    by (simp add: st' error_json_def)
qed

section \<open>Validation in the filtering handler and its sibling\<close>

lemma get_place_details_missing:
  assumes "req_method req \<noteq> ''OPTIONS''" "falsy (placeIds req)"
  shows "get_place_details cookie fetch w req =
         reply w plain_headers 400 (error_body ''Missing placeIds parameter.'')"
  using assms by (simp add: get_place_details_def Let_def)

lemma get_place_details_dispatched:
  assumes "req_method req \<noteq> ''OPTIONS''" "\<not> falsy (placeIds req)"
    "placeIds_array (placeIds req) = Some ids"
  shows "get_place_details cookie fetch w req =
         plain_respond ''Some batches failed.'' plain_headers
           (dispatch (plain_call cookie) array_concat fetch w ids)"
  using assms by (simp add: get_place_details_def Let_def)

text \<open>
  C6, as the code has it. In the filtering handler, on a GET request, an
  absent or empty \<open>placeIds\<close> is answered 400 with
  \<open>{error: "Missing placeIds parameter."}\<close>, and an input whose filtered
  identifier sequence is empty is answered 400 with
  \<open>{error: "No valid place IDs provided."}\<close>; in both cases the handler has
  made no upstream call and has left the world of the upstream as it was.
  api/get-place-details.js answers an absent or empty \<open>placeIds\<close> in the same
  way, with no upstream call, but it has no filter: it dispatches the
  batches of every other string or array as they are.
\<close>

theorem validation_before_network:
  "(req_method req = ''GET'' \<longrightarrow>
      (placeIds req = QAbsent \<or> placeIds req = QStr [] \<longrightarrow>
          res_status (sent (part_000 cookie fetch w req)) = 400 \<and>
          res_body (sent (part_000 cookie fetch w req)) =
            Some (JObj [(''error'', JStr ''Missing placeIds parameter.'')]) \<and>
          upstream_calls (part_000 cookie fetch w req) = [] \<and>
          final_world (part_000 cookie fetch w req) = w) \<and>
      (\<forall>ids. \<not> falsy (placeIds req) \<and> placeIds_array (placeIds req) = Some ids \<and>
              validPlaceIds ids = [] \<longrightarrow>
          res_status (sent (part_000 cookie fetch w req)) = 400 \<and>
          res_body (sent (part_000 cookie fetch w req)) =
            Some (JObj [(''error'', JStr ''No valid place IDs provided.'')]) \<and>
          upstream_calls (part_000 cookie fetch w req) = [] \<and>
          final_world (part_000 cookie fetch w req) = w)) \<and>
   (req_method req \<noteq> ''OPTIONS'' \<longrightarrow>
      (placeIds req = QAbsent \<or> placeIds req = QStr [] \<longrightarrow>
          res_status (sent (get_place_details cookie fetch w req)) = 400 \<and>
          res_body (sent (get_place_details cookie fetch w req)) =
            Some (JObj [(''error'', JStr ''Missing placeIds parameter.'')]) \<and>
          upstream_calls (get_place_details cookie fetch w req) = [] \<and>
          final_world (get_place_details cookie fetch w req) = w) \<and>
      (\<forall>ids. \<not> falsy (placeIds req) \<and> placeIds_array (placeIds req) = Some ids \<longrightarrow>
          upstream_calls (get_place_details cookie fetch w req) =
            map (\<lambda>(i, batch). plain_call cookie batch) (batches ids) \<and>
          final_world (get_place_details cookie fetch w req) =
            world_after fetch w (map (\<lambda>(i, batch). plain_call cookie batch) (batches ids)) \<and>
          res_status (sent (get_place_details cookie fetch w req)) = 200))"
proof (intro conjI impI allI)
  assume get: "req_method req = ''GET''"
  {
    assume "placeIds req = QAbsent \<or> placeIds req = QStr []"
    then have "falsy (placeIds req)" by auto
    note run = part_000_missing [OF get this, of cookie fetch w]
    show "res_status (sent (part_000 cookie fetch w req)) = 400"
      and "res_body (sent (part_000 cookie fetch w req)) =
              Some (JObj [(''error'', JStr ''Missing placeIds parameter.'')])"
      and "upstream_calls (part_000 cookie fetch w req) = []"
      and "final_world (part_000 cookie fetch w req) = w"
      unfolding run by (simp_all add: reply_def error_body_def)
  }
  {
    fix ids
    assume a: "\<not> falsy (placeIds req) \<and> placeIds_array (placeIds req) = Some ids \<and>
               validPlaceIds ids = []"
    then have "\<not> falsy (placeIds req)" "placeIds_array (placeIds req) = Some ids"
      "validPlaceIds ids = []" by simp_all
    note run = part_000_no_valid [OF get this, of cookie fetch w]
    show "res_status (sent (part_000 cookie fetch w req)) = 400"
      and "res_body (sent (part_000 cookie fetch w req)) =
              Some (JObj [(''error'', JStr ''No valid place IDs provided.'')])"
      and "upstream_calls (part_000 cookie fetch w req) = []"
      and "final_world (part_000 cookie fetch w req) = w"
      unfolding run by (simp_all add: reply_def error_body_def)
  }
next
  assume m: "req_method req \<noteq> ''OPTIONS''"
  {
    assume "placeIds req = QAbsent \<or> placeIds req = QStr []"
    then have "falsy (placeIds req)" by auto
    note run = get_place_details_missing [OF m this, of cookie fetch w]
    show "res_status (sent (get_place_details cookie fetch w req)) = 400"
      and "res_body (sent (get_place_details cookie fetch w req)) =
              Some (JObj [(''error'', JStr ''Missing placeIds parameter.'')])"
      and "upstream_calls (get_place_details cookie fetch w req) = []"
      and "final_world (get_place_details cookie fetch w req) = w"
      unfolding run by (simp_all add: reply_def error_body_def)
  }
  {
    fix ids
    assume a: "\<not> falsy (placeIds req) \<and> placeIds_array (placeIds req) = Some ids"
    then have "\<not> falsy (placeIds req)" "placeIds_array (placeIds req) = Some ids"
      by simp_all
    note run = get_place_details_dispatched [OF m this, of cookie fetch w]
    show "upstream_calls (get_place_details cookie fetch w req) =
            map (\<lambda>(i, batch). plain_call cookie batch) (batches ids)"
      and "final_world (get_place_details cookie fetch w req) =
            world_after fetch w (map (\<lambda>(i, batch). plain_call cookie batch) (batches ids))"
      and "res_status (sent (get_place_details cookie fetch w req)) = 200"
      unfolding run
      by (simp_all add: plain_respond_def calls_dispatch world_dispatch batch_calls_def
            plain_headers_def)
  }
qed

theorem validation_before_network_witness:
  "res_status (sent (part_000 None always_404 0
      \<lparr>req_method = ''GET'', placeIds = QStr ''abc,def''\<rparr>)) = 400 \<and>
   res_body (sent (part_000 None always_404 0
      \<lparr>req_method = ''GET'', placeIds = QStr ''abc,def''\<rparr>)) =
     Some (JObj [(''error'', JStr ''No valid place IDs provided.'')]) \<and>
   upstream_calls (part_000 None always_404 0
      \<lparr>req_method = ''GET'', placeIds = QStr ''abc,def''\<rparr>) = [] \<and>
   res_status (sent (part_000 None always_404 0
      \<lparr>req_method = ''GET'', placeIds = QStr ''''\<rparr>)) = 400 \<and>
   res_body (sent (part_000 None always_404 0
      \<lparr>req_method = ''GET'', placeIds = QStr ''''\<rparr>)) =
     Some (JObj [(''error'', JStr ''Missing placeIds parameter.'')]) \<and>
   upstream_calls (part_000 None always_404 0
      \<lparr>req_method = ''GET'', placeIds = QAbsent\<rparr>) = [] \<and>
   res_status (sent (get_place_details None always_404 0
      \<lparr>req_method = ''GET'', placeIds = QAbsent\<rparr>)) = 400 \<and>
   upstream_calls (get_place_details None always_404 0
      \<lparr>req_method = ''GET'', placeIds = QAbsent\<rparr>) = [] \<and>
   upstream_calls (get_place_details None always_404 0
      \<lparr>req_method = ''GET'', placeIds = QArr [''abc'', ''def'']\<rparr>) =
     [plain_call None [''abc'', ''def'']]"
proof -
  let ?abc = "\<lparr>req_method = ''GET'', placeIds = QStr ''abc,def''\<rparr>"
  let ?arr = "\<lparr>req_method = ''GET'', placeIds = QArr [''abc'', ''def'']\<rparr>"
  let ?empty = "\<lparr>req_method = ''GET'', placeIds = QStr ''''\<rparr>"
  let ?absent = "\<lparr>req_method = ''GET'', placeIds = QAbsent\<rparr>"
  have ids: "placeIds_array (placeIds ?abc) = Some [''abc'', ''def'']"
    by (simp add: trim_def isWhiteSpace_def)
  have "\<not> falsy (placeIds ?abc) \<and> placeIds_array (placeIds ?abc) = Some [''abc'', ''def''] \<and>
        validPlaceIds [''abc'', ''def''] = []"
    using ids by (simp add: abc_def_invalid)
  with validation_before_network [of ?abc None always_404 0]
  have 1: "res_status (sent (part_000 None always_404 0 ?abc)) = 400 \<and>
     res_body (sent (part_000 None always_404 0 ?abc)) =
       Some (JObj [(''error'', JStr ''No valid place IDs provided.'')]) \<and>
     upstream_calls (part_000 None always_404 0 ?abc) = []"
    by (simp del: placeIds_array.simps)
  have 2: "res_status (sent (part_000 None always_404 0 ?empty)) = 400 \<and>
     res_body (sent (part_000 None always_404 0 ?empty)) =
       Some (JObj [(''error'', JStr ''Missing placeIds parameter.'')])"
    using validation_before_network [of ?empty None always_404 0] by simp
  have 3: "upstream_calls (part_000 None always_404 0 ?absent) = [] \<and>
     res_status (sent (get_place_details None always_404 0 ?absent)) = 400 \<and>
     upstream_calls (get_place_details None always_404 0 ?absent) = []"
    using validation_before_network [of ?absent None always_404 0] by simp
  have 4: "upstream_calls (get_place_details None always_404 0 ?arr) =
     [plain_call None [''abc'', ''def'']]"
    using validation_before_network [of ?arr None always_404 0]
    by (simp add: batches_one)
  from 1 2 3 4 show ?thesis by simp
qed

text \<open>
  C6 as stated fails on api/get-place-details.js: the filtered identifier
  sequence of \<open>abc,def\<close> is empty, yet the handler calls the upstream with
  both strings and answers 200.
\<close>

theorem validation_before_network_counterexample:
  "validPlaceIds (map trim (split CHR '','' ''abc,def'')) = [] \<and>
   upstream_calls (get_place_details None always_404 0
      \<lparr>req_method = ''GET'', placeIds = QStr ''abc,def''\<rparr>) =
     [plain_call None [''abc'', ''def'']] \<and>
   res_status (sent (get_place_details None always_404 0
      \<lparr>req_method = ''GET'', placeIds = QStr ''abc,def''\<rparr>)) = 200"
proof -
  let ?req = "\<lparr>req_method = ''GET'', placeIds = QStr ''abc,def''\<rparr>"
  have ids: "map trim (split CHR '','' ''abc,def'') = [''abc'', ''def'']"
    by (simp add: trim_def isWhiteSpace_def)
  have "req_method ?req \<noteq> ''OPTIONS''" "\<not> falsy (placeIds ?req)"
    "placeIds_array (placeIds ?req) = Some [''abc'', ''def'']"
    by (simp_all add: trim_def isWhiteSpace_def)
  note run = get_place_details_dispatched [OF this, of None always_404 0]
  show ?thesis
    unfolding run ids
    by (simp add: abc_def_invalid plain_respond_def calls_dispatch batch_calls_def batches_one
          plain_headers_def)
qed

end
